theory Spec2Isabelle
  imports Complex_Main
begin

section \<open>Strings and regular expressions\<close>

text \<open>
  Strings are byte lists. Letter case is the ASCII one, which is what the schema setter
  \<^verbatim>\<open>lowercase: true\<close> and the regular-expression option \<^verbatim>\<open>i\<close> do on
  ASCII input.
\<close>

definition char_code :: "char \<Rightarrow> nat" where
  "char_code c = of_char c"

definition is_upper :: "char \<Rightarrow> bool" where
  "is_upper c = (65 \<le> char_code c \<and> char_code c \<le> 90)"

definition is_lower :: "char \<Rightarrow> bool" where
  "is_lower c = (97 \<le> char_code c \<and> char_code c \<le> 122)"

definition is_digit :: "char \<Rightarrow> bool" where
  "is_digit c = (48 \<le> char_code c \<and> char_code c \<le> 57)"

text \<open>The class \<^verbatim>\<open>\w\<close> of a JavaScript regular expression: \<^verbatim>\<open>[A-Za-z0-9_]\<close>.\<close>

definition is_word :: "char \<Rightarrow> bool" where
  "is_word c = (is_upper c \<or> is_lower c \<or> is_digit c \<or> char_code c = 95)"

text \<open>White space as \<^verbatim>\<open>String.prototype.trim\<close> and \<^verbatim>\<open>parseInt\<close> skip it
  (the ASCII part: tab, line feed, vertical tab, form feed, carriage return, space).\<close>

definition is_space :: "char \<Rightarrow> bool" where
  "is_space c = (char_code c \<in> {9, 10, 11, 12, 13, 32})"

definition lower_char :: "char \<Rightarrow> char" where
  "lower_char c = (if is_upper c then char_of (char_code c + 32) else c)"

definition toLowerCase :: "string \<Rightarrow> string" where
  "toLowerCase s = map lower_char s"

definition trim :: "string \<Rightarrow> string" where
  "trim s = rev (dropWhile is_space (rev (dropWhile is_space s)))"

text \<open>
  Regular expressions, as far as the repository uses them: the two \<^verbatim>\<open>match\<close>
  patterns of the schemas, and the search term handed to the store as \<^verbatim>\<open>$regex\<close>.
  A character set is one character, the dot (any character but a line feed),
  \<^verbatim>\<open>\w\<close>, \<^verbatim>\<open>[0-9]\<close>, or a bracket list such as \<^verbatim>\<open>[.-]\<close>.
\<close>

datatype cset = Lit char | AnyChar | WordChar | DigitChar | OneOf "char list"

datatype rx = Zero | One | Sym cset | Seq rx rx | Alt rx rx | Star rx

text \<open>The flag is the option \<^verbatim>\<open>i\<close>: letters match without regard to case.\<close>

fun cset_has :: "bool \<Rightarrow> cset \<Rightarrow> char \<Rightarrow> bool" where
  "cset_has ci (Lit a) c = (if ci then lower_char a = lower_char c else a = c)"
| "cset_has ci AnyChar c = (char_code c \<noteq> 10)"
| "cset_has ci WordChar c = is_word c"
| "cset_has ci DigitChar c = is_digit c"
| "cset_has ci (OneOf as) c =
     (if ci then lower_char c \<in> set (map lower_char as) else c \<in> set as)"

fun nullable :: "rx \<Rightarrow> bool" where
  "nullable Zero = False"
| "nullable One = True"
| "nullable (Sym a) = False"
| "nullable (Seq r s) = (nullable r \<and> nullable s)"
| "nullable (Alt r s) = (nullable r \<or> nullable s)"
| "nullable (Star r) = True"

text \<open>The derivative of an expression by one character: what is left to match.\<close>

fun deriv :: "bool \<Rightarrow> char \<Rightarrow> rx \<Rightarrow> rx" where
  "deriv ci c Zero = Zero"
| "deriv ci c One = Zero"
| "deriv ci c (Sym a) = (if cset_has ci a c then One else Zero)"
| "deriv ci c (Seq r s) =
     (if nullable r then Alt (Seq (deriv ci c r) s) (deriv ci c s)
      else Seq (deriv ci c r) s)"
| "deriv ci c (Alt r s) = Alt (deriv ci c r) (deriv ci c s)"
| "deriv ci c (Star r) = Seq (deriv ci c r) (Star r)"

text \<open>\<^verbatim>\<open>/^r$/.test(s)\<close>: the whole string matches.\<close>

fun rx_test :: "bool \<Rightarrow> rx \<Rightarrow> string \<Rightarrow> bool" where
  "rx_test ci r [] = nullable r"
| "rx_test ci r (c # cs) = rx_test ci (deriv ci c r) cs"

text \<open>Some prefix of the string matches.\<close>

fun rx_prefix :: "bool \<Rightarrow> rx \<Rightarrow> string \<Rightarrow> bool" where
  "rx_prefix ci r [] = nullable r"
| "rx_prefix ci r (c # cs) = (nullable r \<or> rx_prefix ci (deriv ci c r) cs)"

text \<open>An unanchored pattern, as \<^verbatim>\<open>$regex\<close> applies it: some substring matches.\<close>

fun rx_search :: "bool \<Rightarrow> rx \<Rightarrow> string \<Rightarrow> bool" where
  "rx_search ci r [] = nullable r"
| "rx_search ci r (c # cs) = (rx_prefix ci r (c # cs) \<or> rx_search ci r cs)"

definition plus_rx :: "rx \<Rightarrow> rx" where
  "plus_rx r = Seq r (Star r)"

definition opt_rx :: "rx \<Rightarrow> rx" where
  "opt_rx r = Alt One r"

text \<open>\<^verbatim>\<open>r{m,m+k}\<close>: \<open>m\<close> copies, then up to \<open>k\<close> more.\<close>

fun rep_opt :: "nat \<Rightarrow> rx \<Rightarrow> rx" where
  "rep_opt 0 r = One"
| "rep_opt (Suc k) r = opt_rx (Seq r (rep_opt k r))"

fun rep_rx :: "nat \<Rightarrow> nat \<Rightarrow> rx \<Rightarrow> rx" where
  "rep_rx 0 k r = rep_opt k r"
| "rep_rx (Suc m) k r = Seq r (rep_rx m k r)"

text \<open>The \<^verbatim>\<open>match\<close> pattern of both email paths:
  \<^verbatim>\<open>/^\w+([.-]?\w+)*@\w+([.-]?\w+)*(\.\w{2,3})+$/\<close>.\<close>

definition email_words :: rx where
  "email_words =
     Seq (plus_rx (Sym WordChar))
         (Star (Seq (opt_rx (Sym (OneOf ''.-''))) (plus_rx (Sym WordChar))))"

definition email_rx :: rx where
  "email_rx =
     Seq email_words
       (Seq (Sym (Lit CHR ''@''))
         (Seq email_words
           (plus_rx (Seq (Sym (Lit CHR ''.'')) (rep_rx 2 1 (Sym WordChar))))))"

text \<open>The \<^verbatim>\<open>match\<close> pattern of \<^verbatim>\<open>phone\<close>: \<^verbatim>\<open>/^[\+]?[0-9]{10,15}$/\<close>.\<close>

definition phone_rx :: rx where
  "phone_rx = Seq (opt_rx (Sym (OneOf ''+''))) (rep_rx 10 5 (Sym DigitChar))"

section \<open>The subscription collection\<close>

text \<open>
  \<^verbatim>\<open>emailSubscriptionSchema\<close>. Dates are milliseconds since the epoch; a field that
  may hold \<^verbatim>\<open>null\<close> is an option. The counters are numbers of the schema, kept as
  integers. \<open>oid\<close> is the document's \<^verbatim>\<open>_id\<close>.
\<close>

datatype sub_status = Active | Unsubscribed | Bounced | Complained

datatype sub_source = WebsiteFooter | WebsitePopup | Manual | Import

record prefs =
  newsletters :: bool
  promotions :: bool
  updates :: bool
  events :: bool

record metadata =
  ipAddress :: "string option"
  userAgent :: "string option"
  referrer :: "string option"
  country :: "string option"
  city :: "string option"

record email_subscription =
  oid :: nat
  email :: string
  status :: sub_status
  source :: sub_source
  subscriptionDate :: int
  unsubscriptionDate :: "int option"
  unsubscriptionReason :: "string option"
  preferences :: prefs
  metadata :: metadata
  tags :: "string list"
  emailsSent :: int
  emailsOpened :: int
  emailsClicked :: int
  lastEmailSent :: "int option"
  lastEmailOpened :: "int option"
  lastEmailClicked :: "int option"
  verificationToken :: "string option"
  isVerified :: bool
  verifiedAt :: "int option"
  createdAt :: int
  updatedAt :: int

text \<open>What the store can answer to a write or a query instead of a result.\<close>

datatype store_error = ValidationError | DuplicateKey | BadValue

text \<open>The setters of the path \<^verbatim>\<open>email\<close> (\<^verbatim>\<open>trim\<close>, \<^verbatim>\<open>lowercase\<close>);
  they run on a new document's value and on the value of a query filter.\<close>

definition email_setter :: "string \<Rightarrow> string" where
  "email_setter e = toLowerCase (trim e)"

definition findOne_email :: "email_subscription list \<Rightarrow> string \<Rightarrow> email_subscription option" where
  "findOne_email db e = find (\<lambda>d. email d = email_setter e) db"

text \<open>The validators of a new document: \<^verbatim>\<open>email\<close> is required and must match the
  pattern. Every other path is valid by its type here.\<close>

definition validate_subscription :: "email_subscription \<Rightarrow> bool" where
  "validate_subscription d = (email d \<noteq> [] \<and> rx_test False email_rx (email d))"

text \<open>
  \<^verbatim>\<open>emailSubscriptionSchema.pre('save')\<close>. The first argument is the document as
  it was loaded (\<open>None\<close> for a new one): \<^verbatim>\<open>isModified(p)\<close> holds for a new
  document and for a loaded one whose path \<open>p\<close> changed. A date object is truthy,
  \<^verbatim>\<open>null\<close> is not.
\<close>

definition isModified :: "'d option \<Rightarrow> ('d \<Rightarrow> 'p) \<Rightarrow> 'd \<Rightarrow> bool" where
  "isModified loaded p d = (case loaded of None \<Rightarrow> True | Some d0 \<Rightarrow> p d0 \<noteq> p d)"

definition pre_save_subscription ::
  "int \<Rightarrow> email_subscription option \<Rightarrow> email_subscription \<Rightarrow> email_subscription" where
  "pre_save_subscription now loaded d =
     (let d1 = (if isModified loaded isVerified d \<and> isVerified d \<and> verifiedAt d = None
                then d\<lparr>verifiedAt := Some now\<rparr> else d)
      in if isModified loaded status d1 \<and> status d1 = Unsubscribed \<and> unsubscriptionDate d1 = None
         then d1\<lparr>unsubscriptionDate := Some now\<rparr> else d1)"

text \<open>The unique index on \<^verbatim>\<open>email\<close>: an insert of a value already there is
  rejected with the duplicate-key error (E11000).\<close>

definition insert_subscription ::
  "email_subscription list \<Rightarrow> email_subscription \<Rightarrow> store_error + email_subscription list" where
  "insert_subscription db d =
     (if email d \<in> set (map email db) then Inl DuplicateKey else Inr (db @ [d]))"

text \<open>\<^verbatim>\<open>save()\<close> of a new document: validation, the hook, the timestamps, the insert.\<close>

definition save_new_subscription ::
  "int \<Rightarrow> email_subscription \<Rightarrow> email_subscription list \<Rightarrow> store_error + email_subscription list" where
  "save_new_subscription now d db =
     (if \<not> validate_subscription d then Inl ValidationError
      else insert_subscription db
             ((pre_save_subscription now None d)\<lparr>createdAt := now, updatedAt := now\<rparr>))"

text \<open>\<^verbatim>\<open>save()\<close> of a loaded document: the hook, \<^verbatim>\<open>updatedAt\<close>, and the update of
  the document with that \<^verbatim>\<open>_id\<close>. The handlers below change no path that has a
  validator which could fail, and never the email.\<close>

definition stored_form :: "int \<Rightarrow> email_subscription \<Rightarrow> email_subscription \<Rightarrow> email_subscription" where
  "stored_form now loaded d = (pre_save_subscription now (Some loaded) d)\<lparr>updatedAt := now\<rparr>"

definition save_subscription ::
  "int \<Rightarrow> email_subscription \<Rightarrow> email_subscription \<Rightarrow> email_subscription list \<Rightarrow> email_subscription list" where
  "save_subscription now loaded d db =
     map (\<lambda>x. if oid x = oid d then stored_form now loaded d else x) db"

text \<open>A new \<^verbatim>\<open>_id\<close>: one that no document of the collection has.\<close>

definition fresh_oid :: "email_subscription list \<Rightarrow> nat" where
  "fresh_oid db = Suc (fold max (map oid db) 0)"

section \<open>Subscribe and unsubscribe\<close>

text \<open>
  The body's \<^verbatim>\<open>preferences\<close> object: each of the four keys of the schema is
  present with a boolean or absent (a key outside the schema is dropped when the
  document is set). The request carries what the route's validators left:
  \<^verbatim>\<open>errors.array()\<close> and the sanitised body.
\<close>

record pref_patch =
  set_newsletters :: "bool option"
  set_promotions :: "bool option"
  set_updates :: "bool option"
  set_events :: "bool option"

record request =
  validationErrors :: "string list"
  client_ip :: "string option"
  header_userAgent :: "string option"
  header_referer :: "string option"

record subscribe_request = request +
  body_email :: string
  body_source :: "sub_source option"
  body_preferences :: "pref_patch option"

record unsubscribe_request =
  unsub_email :: string
  unsub_reason :: "string option"

record sub_summary =
  data_id :: nat
  data_email :: string
  data_status :: sub_status
  data_subscriptionDate :: int

record 'a response =
  code :: nat
  success :: bool
  message :: string
  errors :: "string list"
  payload :: "'a option"

definition failure :: "nat \<Rightarrow> string \<Rightarrow> 'a response" where
  "failure c m = \<lparr>code = c, success = False, message = m, errors = [], payload = None\<rparr>"

definition no_prefs :: pref_patch where
  "no_prefs = \<lparr>set_newsletters = None, set_promotions = None, set_updates = None,
               set_events = None\<rparr>"

definition default_prefs :: prefs where
  "default_prefs = \<lparr>newsletters = True, promotions = True, updates = True, events = True\<rparr>"

text \<open>\<^verbatim>\<open>{ ...base, ...patch }\<close>: a key of the patch wins, every other key stays.\<close>

definition spread :: "prefs \<Rightarrow> pref_patch \<Rightarrow> prefs" where
  "spread base patch =
     \<lparr>newsletters = (case set_newsletters patch of None \<Rightarrow> newsletters base | Some b \<Rightarrow> b),
      promotions = (case set_promotions patch of None \<Rightarrow> promotions base | Some b \<Rightarrow> b),
      updates = (case set_updates patch of None \<Rightarrow> updates base | Some b \<Rightarrow> b),
      events = (case set_events patch of None \<Rightarrow> events base | Some b \<Rightarrow> b)\<rparr>"

text \<open>\<^verbatim>\<open>Object.keys(preferences).length > 0\<close>\<close>

definition has_keys :: "pref_patch \<Rightarrow> bool" where
  "has_keys patch =
     (set_newsletters patch \<noteq> None \<or> set_promotions patch \<noteq> None \<or>
      set_updates patch \<noteq> None \<or> set_events patch \<noteq> None)"

text \<open>The defaults of the destructuring:
  \<^verbatim>\<open>source = 'website-footer', preferences = {}\<close>.\<close>

definition source_of :: "subscribe_request \<Rightarrow> sub_source" where
  "source_of req = (case body_source req of None \<Rightarrow> WebsiteFooter | Some s \<Rightarrow> s)"

definition preferences_of :: "subscribe_request \<Rightarrow> pref_patch" where
  "preferences_of req = (case body_preferences req of None \<Rightarrow> no_prefs | Some p \<Rightarrow> p)"

definition summary :: "email_subscription \<Rightarrow> sub_summary" where
  "summary d = \<lparr>data_id = oid d, data_email = email d, data_status = status d,
                data_subscriptionDate = subscriptionDate d\<rparr>"

text \<open>\<^verbatim>\<open>new EmailSubscription({...})\<close> with the defaults of the schema.\<close>

definition new_subscription :: "int \<Rightarrow> subscribe_request \<Rightarrow> email_subscription list \<Rightarrow> email_subscription" where
  "new_subscription now req db =
     \<lparr>oid = fresh_oid db,
      email = email_setter (body_email req),
      status = Active,
      source = source_of req,
      subscriptionDate = now,
      unsubscriptionDate = None,
      unsubscriptionReason = None,
      preferences = spread default_prefs (preferences_of req),
      metadata = \<lparr>ipAddress = client_ip req, userAgent = header_userAgent req,
                   referrer = header_referer req, country = None, city = None\<rparr>,
      tags = [],
      emailsSent = 0, emailsOpened = 0, emailsClicked = 0,
      lastEmailSent = None, lastEmailOpened = None, lastEmailClicked = None,
      verificationToken = None,
      isVerified = True,
      verifiedAt = Some now,
      createdAt = now, updatedAt = now\<rparr>"

text \<open>
  The block \<^verbatim>\<open>// Create new subscription\<close> with the handler's \<^verbatim>\<open>catch\<close>: an error
  of \<^verbatim>\<open>save()\<close>, whatever it is, becomes the 500 response. The collection is the
  one the store holds when the insert arrives.
\<close>

definition create_subscription ::
  "int \<Rightarrow> subscribe_request \<Rightarrow> email_subscription list
     \<Rightarrow> sub_summary response \<times> email_subscription list" where
  "create_subscription now req db =
     (case save_new_subscription now (new_subscription now req db) db of
        Inl e \<Rightarrow> (failure 500 ''Failed to subscribe. Please try again later.'', db)
      | Inr db' \<Rightarrow>
          (\<lparr>code = 201, success = True,
            message = ''Thank you for subscribing! You will receive our latest updates and offers.'',
            errors = [], payload = Some (summary (new_subscription now req db))\<rparr>, db'))"

text \<open>The assignments of the branch \<^verbatim>\<open>// If previously unsubscribed, reactivate\<close>.\<close>

definition reactivate :: "int \<Rightarrow> subscribe_request \<Rightarrow> email_subscription \<Rightarrow> email_subscription" where
  "reactivate now req existing =
     existing\<lparr>status := Active,
              subscriptionDate := now,
              unsubscriptionDate := None,
              unsubscriptionReason := None,
              source := source_of req,
              metadata := (metadata existing)\<lparr>ipAddress := client_ip req,
                                              userAgent := header_userAgent req,
                                              referrer := header_referer req\<rparr>,
              preferences := (if has_keys (preferences_of req)
                              then spread (preferences existing) (preferences_of req)
                              else preferences existing)\<rparr>"

definition subscribeEmail ::
  "int \<Rightarrow> subscribe_request \<Rightarrow> email_subscription list
     \<Rightarrow> sub_summary response \<times> email_subscription list" where
  "subscribeEmail now req db =
     (if validationErrors req \<noteq> [] then
        (\<lparr>code = 400, success = False, message = ''Validation failed'',
          errors = validationErrors req, payload = None\<rparr>, db)
      else case findOne_email db (body_email req) of
        Some existing \<Rightarrow>
          if status existing = Active then
            (failure 409 ''This email is already subscribed to our newsletter'', db)
          else if status existing = Unsubscribed then
            (let d = reactivate now req existing in
             (\<lparr>code = 200, success = True,
               message = ''Welcome back! Your email subscription has been reactivated.'',
               errors = [], payload = Some (summary (stored_form now existing d))\<rparr>,
              save_subscription now existing d db))
          else create_subscription now req db
      | None \<Rightarrow> create_subscription now req db)"

text \<open>\<^verbatim>\<open>reason || 'User requested'\<close>: an absent reason and the empty string are falsy.\<close>

definition reason_or_default :: "string option \<Rightarrow> string" where
  "reason_or_default r =
     (case r of None \<Rightarrow> ''User requested''
      | Some s \<Rightarrow> if s = [] then ''User requested'' else s)"

definition unsubscribeEmail ::
  "int \<Rightarrow> unsubscribe_request \<Rightarrow> email_subscription list
     \<Rightarrow> sub_summary response \<times> email_subscription list" where
  "unsubscribeEmail now req db =
     (case findOne_email db (unsub_email req) of
        None \<Rightarrow> (failure 404 ''Email not found in our subscription list'', db)
      | Some subscription \<Rightarrow>
          if status subscription = Unsubscribed then
            (failure 400 ''This email is already unsubscribed'', db)
          else
            (let d = subscription\<lparr>status := Unsubscribed,
                                  unsubscriptionDate := Some now,
                                  unsubscriptionReason := Some (reason_or_default (unsub_reason req))\<rparr>
             in (\<lparr>code = 200, success = True,
                  message = ''You have been successfully unsubscribed from our mailing list'',
                  errors = [], payload = None\<rparr>,
                 save_subscription now subscription d db)))"

section \<open>Statistics\<close>

text \<open>
  \<^verbatim>\<open>{ $group: { _id: '$field', count: { $sum: 1 } } }\<close>: the documents are read one
  by one; a document whose key has a group adds one to it, another opens a group at 1.
\<close>

fun bump :: "'k \<Rightarrow> ('k \<times> nat) list \<Rightarrow> ('k \<times> nat) list" where
  "bump k [] = [(k, 1)]"
| "bump k ((k', n) # gs) = (if k = k' then (k', Suc n) # gs else (k', n) # bump k gs)"

definition group_count :: "('d \<Rightarrow> 'k) \<Rightarrow> 'd list \<Rightarrow> ('k \<times> nat) list" where
  "group_count f docs = fold (\<lambda>d. bump (f d)) docs []"

text \<open>\<^verbatim>\<open>countDocuments\<close> with a filter.\<close>

definition countDocuments :: "('d \<Rightarrow> bool) \<Rightarrow> 'd list \<Rightarrow> nat" where
  "countDocuments f docs = length (filter f docs)"

text \<open>The three dates a statistics call computes from the clock: \<^verbatim>\<open>Date.now()\<close>,
  local midnight, and the first day of the local month.\<close>

record clock =
  clock_now :: int
  startOfToday :: int
  startOfMonth :: int

text \<open>The virtuals \<^verbatim>\<open>engagementRate\<close> of the schema; \<^verbatim>\<open>Math.round\<close> is
  \<open>\<lfloor>x + 1/2\<rfloor>\<close>, and the quotient is taken exactly.\<close>

definition engagementRate :: "email_subscription \<Rightarrow> int" where
  "engagementRate d =
     (if emailsSent d = 0 then 0
      else \<lfloor>(of_int (emailsOpened d) / of_int (emailsSent d)) * 100 + (1/2 :: rat)\<rfloor>)"

text \<open>
  A field path of an aggregation stage reads the stored document. The numbers stored in
  a subscription are its three counters; a virtual is computed by the model layer when a
  document is read there and is no path of the stored document, so an expression
  \<^verbatim>\<open>'$engagementRate'\<close> finds nothing.
\<close>

definition stored_number :: "string \<Rightarrow> email_subscription \<Rightarrow> int option" where
  "stored_number path d =
     (if path = ''emailsSent'' then Some (emailsSent d)
      else if path = ''emailsOpened'' then Some (emailsOpened d)
      else if path = ''emailsClicked'' then Some (emailsClicked d)
      else None)"

text \<open>\<^verbatim>\<open>$sum\<close> and \<^verbatim>\<open>$avg\<close> skip a document without a number at the path;
  \<^verbatim>\<open>$avg\<close> of no number at all is \<^verbatim>\<open>null\<close>.\<close>

definition numbers_at :: "string \<Rightarrow> email_subscription list \<Rightarrow> int list" where
  "numbers_at path rows = concat (map (\<lambda>d. case stored_number path d of None \<Rightarrow> [] | Some n \<Rightarrow> [n]) rows)"

definition acc_sum :: "string \<Rightarrow> email_subscription list \<Rightarrow> int" where
  "acc_sum path rows = sum_list (numbers_at path rows)"

definition acc_avg :: "string \<Rightarrow> email_subscription list \<Rightarrow> rat option" where
  "acc_avg path rows =
     (let ns = numbers_at path rows
      in if ns = [] then None else Some (of_int (sum_list ns) / of_int (int (length ns))))"

record engagement =
  totalEmailsSent :: int
  totalEmailsOpened :: int
  totalEmailsClicked :: int
  avgEngagementRate :: "rat option"

text \<open>The pipeline \<^verbatim>\<open>$match: { status: 'active' }\<close>, \<^verbatim>\<open>$group: { _id: null, ... }\<close>:
  one group when a row matches, no output document otherwise.\<close>

definition engagementStats :: "email_subscription list \<Rightarrow> engagement list" where
  "engagementStats db =
     (let rows = filter (\<lambda>d. status d = Active) db
      in if rows = [] then []
         else [\<lparr>totalEmailsSent = acc_sum ''emailsSent'' rows,
                totalEmailsOpened = acc_sum ''emailsOpened'' rows,
                totalEmailsClicked = acc_sum ''emailsClicked'' rows,
                avgEngagementRate = acc_avg ''engagementRate'' rows\<rparr>])"

record email_stats =
  stats_total :: nat
  stats_active :: nat
  stats_today :: nat
  stats_thisWeek :: nat
  stats_thisMonth :: nat
  byStatus :: "(sub_status \<times> nat) list"
  bySource :: "(sub_source \<times> nat) list"
  engagement_data :: engagement

text \<open>\<^verbatim>\<open>EmailSubscription.getStats\<close>, the static of the model.\<close>

definition getStats :: "email_subscription list \<Rightarrow> (sub_status \<times> nat) list" where
  "getStats db = group_count status db"

definition getEmailStats :: "clock \<Rightarrow> email_subscription list \<Rightarrow> email_stats response" where
  "getEmailStats clk db =
     \<lparr>code = 200, success = True, message = [], errors = [],
      payload = Some
        \<lparr>stats_total = countDocuments (\<lambda>d. True) db,
         stats_active = countDocuments (\<lambda>d. status d = Active) db,
         stats_today = countDocuments (\<lambda>d. startOfToday clk \<le> subscriptionDate d) db,
         stats_thisWeek =
           countDocuments (\<lambda>d. clock_now clk - 7 * 24 * 60 * 60 * 1000 \<le> subscriptionDate d) db,
         stats_thisMonth = countDocuments (\<lambda>d. startOfMonth clk \<le> subscriptionDate d) db,
         byStatus = getStats db,
         bySource = group_count source db,
         engagement_data =
           (case engagementStats db of
              e # rest \<Rightarrow> e
            | [] \<Rightarrow> \<lparr>totalEmailsSent = 0, totalEmailsOpened = 0, totalEmailsClicked = 0,
                     avgEngagementRate = Some 0\<rparr>)\<rparr>\<rparr>"

section \<open>The contact collection\<close>

datatype contact_status = New | Contacted | InProgress | Completed | Cancelled

datatype priority_level = Low | Medium | High | Urgent

text \<open>An element of the path \<^verbatim>\<open>notes\<close> (\<open>contact_notes\<close> below); \<open>note_text\<close> is
  its path \<^verbatim>\<open>note\<close>.\<close>

record contact_note =
  note_text :: string
  addedBy :: string
  addedAt :: int

text \<open>\<^verbatim>\<open>contactSchema\<close>. The paths that the subscription schema has too carry the
  prefix \<open>contact_\<close>.\<close>

record contact =
  contact_oid :: nat
  name :: string
  contact_email :: string
  phone :: string
  description :: string
  contact_status :: contact_status
  contact_source :: string
  contact_ipAddress :: "string option"
  contact_userAgent :: "string option"
  contact_notes :: "contact_note list"
  assignedTo :: "nat option"
  priority :: priority_level
  followUpDate :: "int option"
  contact_createdAt :: int
  contact_updatedAt :: int

record contact_request = request +
  body_name :: string
  body_contact_email :: string
  body_phone :: string
  body_description :: string

record contact_summary =
  created_id :: nat
  created_name :: string
  created_email :: string
  created_status :: contact_status
  created_createdAt :: int

text \<open>The validators of the schema: \<^verbatim>\<open>required\<close>, \<^verbatim>\<open>maxlength\<close>, \<^verbatim>\<open>match\<close>.\<close>

definition validate_contact :: "contact \<Rightarrow> bool" where
  "validate_contact c =
     (name c \<noteq> [] \<and> length (name c) \<le> 100 \<and>
      contact_email c \<noteq> [] \<and> rx_test False email_rx (contact_email c) \<and>
      phone c \<noteq> [] \<and> rx_test False phone_rx (phone c) \<and>
      description c \<noteq> [] \<and> length (description c) \<le> 1000)"

text \<open>\<^verbatim>\<open>contactSchema.pre('save')\<close>; the flag is \<^verbatim>\<open>this.isNew\<close>.\<close>

definition pre_save_contact :: "int \<Rightarrow> bool \<Rightarrow> contact \<Rightarrow> contact" where
  "pre_save_contact now isNew c =
     (if isNew then
        c\<lparr>contact_notes := contact_notes c @
             [\<lparr>note_text = ''Contact form submitted from '' @ contact_source c,
               addedBy = ''system'', addedAt = now\<rparr>]\<rparr>
      else c)"

text \<open>\<^verbatim>\<open>save()\<close> of a new contact: validation, the hook, the timestamps, the insert.
  The collection has no unique index.\<close>

definition save_new_contact :: "int \<Rightarrow> contact \<Rightarrow> contact list \<Rightarrow> store_error + contact \<times> contact list" where
  "save_new_contact now c db =
     (if \<not> validate_contact c then Inl ValidationError
      else (let c' = (pre_save_contact now True c)\<lparr>contact_createdAt := now, contact_updatedAt := now\<rparr>
            in Inr (c', db @ [c'])))"

definition fresh_contact_oid :: "contact list \<Rightarrow> nat" where
  "fresh_contact_oid db = Suc (fold max (map contact_oid db) 0)"

text \<open>\<^verbatim>\<open>new Contact({ name, email, phone, description, ipAddress, userAgent,
  source: 'website' })\<close> with the setters and defaults of the schema.\<close>

definition new_contact :: "int \<Rightarrow> contact_request \<Rightarrow> contact list \<Rightarrow> contact" where
  "new_contact now req db =
     \<lparr>contact_oid = fresh_contact_oid db,
      name = trim (body_name req),
      contact_email = email_setter (body_contact_email req),
      phone = trim (body_phone req),
      description = trim (body_description req),
      contact_status = New,
      contact_source = ''website'',
      contact_ipAddress = client_ip req,
      contact_userAgent = header_userAgent req,
      contact_notes = [],
      assignedTo = None,
      priority = Medium,
      followUpDate = None,
      contact_createdAt = now, contact_updatedAt = now\<rparr>"

definition createContact ::
  "int \<Rightarrow> contact_request \<Rightarrow> contact list \<Rightarrow> contact_summary response \<times> contact list" where
  "createContact now req db =
     (if validationErrors req \<noteq> [] then
        (\<lparr>code = 400, success = False, message = ''Validation failed'',
          errors = validationErrors req, payload = None\<rparr>, db)
      else case find (\<lambda>c. contact_email c = email_setter (body_contact_email req) \<and>
                          now - 24 * 60 * 60 * 1000 \<le> contact_createdAt c) db of
        Some existingContact \<Rightarrow>
          (failure 409
             ''A contact request with this email was already submitted in the last 24 hours'', db)
      | None \<Rightarrow>
          (case save_new_contact now (new_contact now req db) db of
             Inl e \<Rightarrow>
               (failure 500 ''Failed to submit contact request. Please try again later.'', db)
           | Inr (c, db') \<Rightarrow>
               (\<lparr>code = 201, success = True,
                 message = ''Contact request submitted successfully! We will get back to you soon.'',
                 errors = [],
                 payload = Some \<lparr>created_id = contact_oid c, created_name = name c,
                                  created_email = contact_email c,
                                  created_status = contact_status c,
                                  created_createdAt = contact_createdAt c\<rparr>\<rparr>, db')))"

record contact_stats =
  cstats_total :: nat
  cstats_today :: nat
  cstats_thisWeek :: nat
  cstats_thisMonth :: nat
  cstats_byStatus :: "(contact_status \<times> nat) list"
  cstats_byPriority :: "(priority_level \<times> nat) list"

definition getContactStats :: "clock \<Rightarrow> contact list \<Rightarrow> contact_stats response" where
  "getContactStats clk db =
     \<lparr>code = 200, success = True, message = [], errors = [],
      payload = Some
        \<lparr>cstats_total = countDocuments (\<lambda>c. True) db,
         cstats_today = countDocuments (\<lambda>c. startOfToday clk \<le> contact_createdAt c) db,
         cstats_thisWeek =
           countDocuments (\<lambda>c. clock_now clk - 7 * 24 * 60 * 60 * 1000 \<le> contact_createdAt c) db,
         cstats_thisMonth = countDocuments (\<lambda>c. startOfMonth clk \<le> contact_createdAt c) db,
         cstats_byStatus = group_count contact_status db,
         cstats_byPriority = group_count priority db\<rparr>\<rparr>"

section \<open>List queries\<close>

text \<open>
  \<^verbatim>\<open>parseInt\<close> of a query parameter: white space is skipped, then a sign, then the
  prefix \<^verbatim>\<open>0x\<close> or \<^verbatim>\<open>0X\<close> (radix 16), then the longest run of digits of the
  radix; no digit gives \<^verbatim>\<open>NaN\<close>, here \<open>None\<close>. An absent parameter is
  \<^verbatim>\<open>undefined\<close>, read as the string \<^verbatim>\<open>undefined\<close>. Numbers are integers here:
  the model is exact where the source's doubles are, up to \<open>2\<^sup>5\<^sup>3\<close>.
\<close>

definition digit_value :: "char \<Rightarrow> nat option" where
  "digit_value c =
     (if is_digit c then Some (char_code c - 48)
      else if 97 \<le> char_code c \<and> char_code c \<le> 102 then Some (char_code c - 87)
      else if 65 \<le> char_code c \<and> char_code c \<le> 70 then Some (char_code c - 55)
      else None)"

definition radix_digit :: "nat \<Rightarrow> char \<Rightarrow> bool" where
  "radix_digit r c = (case digit_value c of None \<Rightarrow> False | Some v \<Rightarrow> v < r)"

definition digits_value :: "nat \<Rightarrow> string \<Rightarrow> nat" where
  "digits_value r ds = fold (\<lambda>c acc. acc * r + (case digit_value c of None \<Rightarrow> 0 | Some v \<Rightarrow> v)) ds 0"

definition parse_digits :: "nat \<Rightarrow> string \<Rightarrow> nat option" where
  "parse_digits r s =
     (let ds = takeWhile (radix_digit r) s
      in if ds = [] then None else Some (digits_value r ds))"

definition parse_unsigned :: "string \<Rightarrow> nat option" where
  "parse_unsigned s =
     (if take 2 s = ''0x'' \<or> take 2 s = ''0X'' then parse_digits 16 (drop 2 s)
      else parse_digits 10 s)"

definition parseInt_string :: "string \<Rightarrow> int option" where
  "parseInt_string s =
     (case dropWhile is_space s of
        [] \<Rightarrow> None
      | c # cs \<Rightarrow>
          if c = CHR ''-'' then map_option (\<lambda>n. - int n) (parse_unsigned cs)
          else if c = CHR ''+'' then map_option int (parse_unsigned cs)
          else map_option int (parse_unsigned (c # cs)))"

definition parseInt :: "string option \<Rightarrow> int option" where
  "parseInt x = parseInt_string (case x of None \<Rightarrow> ''undefined'' | Some s \<Rightarrow> s)"

text \<open>\<^verbatim>\<open>parseInt(x) || d\<close>: \<^verbatim>\<open>NaN\<close> and 0 are falsy.\<close>

definition or_default :: "int option \<Rightarrow> int \<Rightarrow> int" where
  "or_default v d = (case v of None \<Rightarrow> d | Some n \<Rightarrow> if n = 0 then d else n)"

text \<open>\<^verbatim>\<open>Math.ceil(total / limit)\<close> for a divisor that is not 0.\<close>

definition ceil_div :: "int \<Rightarrow> int \<Rightarrow> int" where
  "ceil_div a b = - ((- a) div b)"

text \<open>\<^verbatim>\<open>if (x)\<close> on a query parameter: the value when it is a non-empty string.\<close>

definition given :: "string option \<Rightarrow> string option" where
  "given x = (case x of None \<Rightarrow> None | Some s \<Rightarrow> if s = [] then None else Some s)"

record list_query =
  query_page :: "string option"
  query_limit :: "string option"
  query_status :: "string option"
  query_priority :: "string option"
  query_source :: "string option"
  query_search :: "string option"

record 'd page =
  items :: "'d list"
  pagination_current :: int
  pagination_pages :: int
  pagination_total :: int
  pagination_limit :: int

text \<open>
  \<^verbatim>\<open>find(query).sort({ key: -1 }).limit(limit).skip(skip)\<close> on the matching documents:
  the newest first, the skip applied before the limit whatever the order of the calls.
  Documents of one date keep the order of the collection (the store leaves theirs open).
  The store rejects a negative skip; a negative limit is taken by its absolute value and
  a limit of 0 is no limit.
\<close>

definition find_page :: "('d \<Rightarrow> int) \<Rightarrow> int \<Rightarrow> int \<Rightarrow> 'd list \<Rightarrow> store_error + 'd list" where
  "find_page key lmt skp matching =
     (if skp < 0 then Inl BadValue
      else (let rest = drop (nat skp) (sort_key (\<lambda>d. - key d) matching)
            in Inr (if lmt = 0 then rest else take (nat \<bar>lmt\<bar>) rest)))"

text \<open>
  The store's regular-expression compiler, a parameter of the list handlers: a pattern
  compiled with the option \<^verbatim>\<open>i\<close> is a test on strings, and a pattern that does not
  compile is \<open>None\<close> (the query then fails).
\<close>

type_synonym regex_engine = "string \<Rightarrow> (string \<Rightarrow> bool) option"

fun status_name :: "contact_status \<Rightarrow> string" where
  "status_name New = ''new''"
| "status_name Contacted = ''contacted''"
| "status_name InProgress = ''in-progress''"
| "status_name Completed = ''completed''"
| "status_name Cancelled = ''cancelled''"

fun priority_name :: "priority_level \<Rightarrow> string" where
  "priority_name Low = ''low''"
| "priority_name Medium = ''medium''"
| "priority_name High = ''high''"
| "priority_name Urgent = ''urgent''"

fun sub_status_name :: "sub_status \<Rightarrow> string" where
  "sub_status_name Active = ''active''"
| "sub_status_name Unsubscribed = ''unsubscribed''"
| "sub_status_name Bounced = ''bounced''"
| "sub_status_name Complained = ''complained''"

fun source_name :: "sub_source \<Rightarrow> string" where
  "source_name WebsiteFooter = ''website-footer''"
| "source_name WebsitePopup = ''website-popup''"
| "source_name Manual = ''manual''"
| "source_name Import = ''import''"

text \<open>An equality condition of the query object, present when the parameter is given.\<close>

definition field_is :: "string option \<Rightarrow> string \<Rightarrow> bool" where
  "field_is param v = (case given param of None \<Rightarrow> True | Some s \<Rightarrow> v = s)"

text \<open>The query object of \<^verbatim>\<open>getContacts\<close> as a test on a contact.\<close>

definition contact_query :: "regex_engine \<Rightarrow> list_query \<Rightarrow> store_error + (contact \<Rightarrow> bool)" where
  "contact_query rx q =
     (case given (query_search q) of
        None \<Rightarrow>
          Inr (\<lambda>c. field_is (query_status q) (status_name (contact_status c)) \<and>
                   field_is (query_priority q) (priority_name (priority c)))
      | Some search \<Rightarrow>
          (case rx search of
             None \<Rightarrow> Inl BadValue
           | Some m \<Rightarrow>
               Inr (\<lambda>c. field_is (query_status q) (status_name (contact_status c)) \<and>
                        field_is (query_priority q) (priority_name (priority c)) \<and>
                        (m (name c) \<or> m (contact_email c) \<or> m (phone c)))))"

text \<open>The query object of \<^verbatim>\<open>getSubscriptions\<close>.\<close>

definition subscription_query ::
  "regex_engine \<Rightarrow> list_query \<Rightarrow> store_error + (email_subscription \<Rightarrow> bool)" where
  "subscription_query rx q =
     (case given (query_search q) of
        None \<Rightarrow>
          Inr (\<lambda>d. field_is (query_status q) (sub_status_name (status d)) \<and>
                   field_is (query_source q) (source_name (source d)))
      | Some search \<Rightarrow>
          (case rx search of
             None \<Rightarrow> Inl BadValue
           | Some m \<Rightarrow>
               Inr (\<lambda>d. field_is (query_status q) (sub_status_name (status d)) \<and>
                        field_is (query_source q) (source_name (source d)) \<and>
                        m (email d))))"

text \<open>\<^verbatim>\<open>parseInt(req.query.page) || 1\<close> and \<^verbatim>\<open>parseInt(req.query.limit) || 10\<close>.\<close>

definition page_param :: "list_query \<Rightarrow> int" where
  "page_param q = or_default (parseInt (query_page q)) 1"

definition limit_param :: "list_query \<Rightarrow> int" where
  "limit_param q = or_default (parseInt (query_limit q)) 10"

text \<open>The body shared by the two list handlers, with the \<^verbatim>\<open>catch\<close> of each: the
  failure of a query is the 500 response with the handler's message.\<close>

definition list_response ::
  "string \<Rightarrow> ('d \<Rightarrow> int) \<Rightarrow> list_query \<Rightarrow> store_error + ('d \<Rightarrow> bool) \<Rightarrow> 'd list \<Rightarrow> 'd page response" where
  "list_response failed key q query db =
     (let page = page_param q;
          limit = limit_param q
      in case query of
           Inl e \<Rightarrow> failure 500 failed
         | Inr f \<Rightarrow>
             (case find_page key (limit * 1) ((page - 1) * limit) (filter f db) of
                Inl e \<Rightarrow> failure 500 failed
              | Inr docs \<Rightarrow>
                  \<lparr>code = 200, success = True, message = [], errors = [],
                   payload = Some
                     \<lparr>items = docs,
                      pagination_current = page,
                      pagination_pages = ceil_div (int (countDocuments f db)) limit,
                      pagination_total = int (countDocuments f db),
                      pagination_limit = limit\<rparr>\<rparr>))"

text \<open>\<^verbatim>\<open>populate('assignedTo', 'name email')\<close> reads the user collection, which no
  property below looks at; the contacts are returned as stored.\<close>

definition getContacts :: "regex_engine \<Rightarrow> list_query \<Rightarrow> contact list \<Rightarrow> contact page response" where
  "getContacts rx q db =
     list_response ''Failed to fetch contacts'' contact_createdAt q (contact_query rx q) db"

definition getSubscriptions ::
  "regex_engine \<Rightarrow> list_query \<Rightarrow> email_subscription list \<Rightarrow> email_subscription page response" where
  "getSubscriptions rx q db =
     list_response ''Failed to fetch subscriptions'' subscriptionDate q (subscription_query rx q) db"

section \<open>Search terms as patterns\<close>

text \<open>
  A fragment of the pattern language of the store, enough to see what becomes of a
  search term: a pattern is a row of atoms, each with at most one of the quantifiers
  \<^verbatim>\<open>*\<close>, \<^verbatim>\<open>+\<close>, \<^verbatim>\<open>?\<close>; an atom is a plain character, the dot, or a backslash
  before a character that is no letter, digit or underscore (that character itself).
  Outside the fragment the compiler below answers \<open>None\<close>: that is what the store does
  with a pattern that does not compile (a quantifier with nothing before it, an open
  parenthesis left unclosed, a backslash at the end), and it is the limit of this model
  for groups, alternatives, brackets, braces, anchors, a second quantifier, and a
  backslash before a letter, a digit or an underscore.
\<close>

definition backslash :: char where
  "backslash = char_of (92 :: nat)"

datatype token = TChar char | TDot | TQuant char | TOther

fun tokens :: "string \<Rightarrow> token list" where
  "tokens [] = []"
| "tokens (c # cs) =
     (if c = backslash then
        (case cs of
           [] \<Rightarrow> [TOther]
         | e # es \<Rightarrow> (if is_word e then TOther else TChar e) # tokens es)
      else if c = CHR ''.'' then TDot # tokens cs
      else if c \<in> set ''*+?'' then TQuant c # tokens cs
      else if c \<in> set ''()[]{}^$|'' then TOther # tokens cs
      else TChar c # tokens cs)"

fun atom_rx :: "token \<Rightarrow> rx option" where
  "atom_rx (TChar c) = Some (Sym (Lit c))"
| "atom_rx TDot = Some (Sym AnyChar)"
| "atom_rx (TQuant q) = None"
| "atom_rx TOther = None"

definition quantify :: "char \<Rightarrow> rx \<Rightarrow> rx" where
  "quantify q r =
     (if q = CHR ''*'' then Star r else if q = CHR ''+'' then plus_rx r else opt_rx r)"

fun is_quant :: "token \<Rightarrow> bool" where
  "is_quant (TQuant q) = True"
| "is_quant t = False"

fun pieces :: "token list \<Rightarrow> rx option" where
  "pieces [] = Some One"
| "pieces [t] = map_option (\<lambda>a. Seq a One) (atom_rx t)"
| "pieces (t # TQuant q # ts) =
     (case atom_rx t of
        None \<Rightarrow> None
      | Some a \<Rightarrow>
          (case ts of
             [] \<Rightarrow> Some (Seq (quantify q a) One)
           | u # us \<Rightarrow>
               if is_quant u then None
               else map_option (Seq (quantify q a)) (pieces (u # us))))"
| "pieces (t # u # ts) =
     (case atom_rx t of
        None \<Rightarrow> None
      | Some a \<Rightarrow> map_option (Seq a) (pieces (u # ts)))"

definition compile_pattern :: "string \<Rightarrow> rx option" where
  "compile_pattern p = pieces (tokens p)"

text \<open>The fragment as an engine: the compiled pattern, case-insensitive, unanchored.\<close>

definition pattern_engine :: regex_engine where
  "pattern_engine p = map_option (\<lambda>r. rx_search True r) (compile_pattern p)"





section \<open>The records the specification describes\<close>

text \<open>
  A reactivation as the specification words it: the status is active, the subscription
  date is now, the date and reason of the unsubscription are cleared, the source and the
  metadata of the request are overwritten, the supplied preferences are merged over the
  stored ones; every other field stays. The store stamps \<^verbatim>\<open>updatedAt\<close>.
\<close>

definition reactivated :: "int \<Rightarrow> subscribe_request \<Rightarrow> email_subscription \<Rightarrow> email_subscription" where
  "reactivated now req d =
     d\<lparr>status := Active,
       subscriptionDate := now,
       unsubscriptionDate := None,
       unsubscriptionReason := None,
       source := source_of req,
       metadata := (metadata d)\<lparr>ipAddress := client_ip req, userAgent := header_userAgent req,
                                 referrer := header_referer req\<rparr>,
       preferences := spread (preferences d) (preferences_of req),
       updatedAt := now\<rparr>"

text \<open>An unsubscription as the specification words it, for the reason that is stored.\<close>

definition unsubscribed :: "int \<Rightarrow> string option \<Rightarrow> email_subscription \<Rightarrow> email_subscription" where
  "unsubscribed now r d =
     d\<lparr>status := Unsubscribed,
       unsubscriptionDate := Some now,
       unsubscriptionReason :=
         Some (case r of None \<Rightarrow> ''User requested''
               | Some s \<Rightarrow> if s = [] then ''User requested'' else s),
       updatedAt := now\<rparr>"

text \<open>
  A grouped count as the specification words it: each category is one group, every
  group carries the number of documents of its category and that number is not 0, and
  every category that some document has is among the groups.
\<close>

definition grouped :: "('d \<Rightarrow> 'k) \<Rightarrow> 'd list \<Rightarrow> ('k \<times> nat) list \<Rightarrow> bool" where
  "grouped f docs gs =
     (distinct (map fst gs) \<and>
      (\<forall>(k, n) \<in> set gs. 0 < n \<and> n = countDocuments (\<lambda>d. f d = k) docs) \<and>
      (\<forall>d \<in> set docs. f d \<in> fst ` set gs))"

text \<open>A page as the specification words it: of the documents in order, those of the
  1-based page \<open>n\<close> when a page holds \<open>per\<close> of them.\<close>

definition page_of :: "int \<Rightarrow> int \<Rightarrow> 'd list \<Rightarrow> 'd list" where
  "page_of n per docs = take (nat per) (drop (nat ((n - 1) * per)) docs)"

text \<open>
  Pagination as the specification words it, of a response \<open>r\<close> to the query \<open>q\<close>
  over the matching documents \<open>ms\<close> in order. The metadata of every page returned:
  the total is the number of matching documents, the number of pages is
  \<open>\<lceil>total / pageSize\<rceil>\<close>, and 0 for a total of 0. The contents: for a 1-based page
  and a page size of at least 1 the call succeeds with the documents of that page. The
  example: 25 documents, page size 10, page 3 give 5 documents and 3 pages. A page beyond
  the last, for a page size of at least 1, is a success with no document.
\<close>

definition paginates :: "list_query \<Rightarrow> 'd list \<Rightarrow> 'd page response \<Rightarrow> bool" where
  "paginates q ms r =
     ((case payload r of
         None \<Rightarrow> True
       | Some p \<Rightarrow>
           pagination_current p = page_param q \<and>
           pagination_limit p = limit_param q \<and>
           pagination_total p = int (length ms) \<and>
           pagination_pages p =
             \<lceil>(of_int (pagination_total p) / of_int (pagination_limit p) :: rat)\<rceil> \<and>
           (pagination_total p = 0 \<longrightarrow> pagination_pages p = 0)) \<and>
      (1 \<le> page_param q \<and> 1 \<le> limit_param q \<longrightarrow>
         code r = 200 \<and> success r \<and>
         (case payload r of
            None \<Rightarrow> False
          | Some p \<Rightarrow> items p = page_of (page_param q) (limit_param q) ms)) \<and>
      (length ms = 25 \<and> limit_param q = 10 \<and> page_param q = 3 \<longrightarrow>
         (case payload r of
            None \<Rightarrow> False
          | Some p \<Rightarrow> length (items p) = 5 \<and> pagination_pages p = 3)) \<and>
      (1 \<le> limit_param q \<and>
       \<lceil>(of_int (int (length ms)) / of_int (limit_param q) :: rat)\<rceil> < page_param q \<longrightarrow>
         code r = 200 \<and> success r \<and>
         (case payload r of None \<Rightarrow> False | Some p \<Rightarrow> items p = [])))"

section \<open>Sample data\<close>

text \<open>A subscription, a contact and requests on which the theorems below are run.\<close>

definition sample_subscription :: "sub_status \<Rightarrow> email_subscription" where
  "sample_subscription st =
     \<lparr>oid = 7, email = ''ann@example.com'', status = st, source = WebsitePopup,
      subscriptionDate = 1000,
      unsubscriptionDate = (if st = Active then None else Some 2000),
      unsubscriptionReason = (if st = Active then None else Some ''too many emails''),
      preferences = \<lparr>newsletters = True, promotions = False, updates = True, events = False\<rparr>,
      metadata = \<lparr>ipAddress = Some ''10.0.0.1'', userAgent = None, referrer = None,
                   country = Some ''PK'', city = None\<rparr>,
      tags = [], emailsSent = 50, emailsOpened = 10, emailsClicked = 2,
      lastEmailSent = None, lastEmailOpened = None, lastEmailClicked = None,
      verificationToken = None, isVerified = True, verifiedAt = Some 1000,
      createdAt = 1000, updatedAt = 2000\<rparr>"

definition sample_subscribe :: subscribe_request where
  "sample_subscribe =
     \<lparr>validationErrors = [], client_ip = Some ''10.0.0.2'', header_userAgent = Some ''curl'',
      header_referer = None, body_email = ''ann@example.com'', body_source = Some Manual,
      body_preferences = Some \<lparr>set_newsletters = None, set_promotions = Some True,
                                set_updates = None, set_events = None\<rparr>\<rparr>"

definition sample_unsubscribe :: "string option \<Rightarrow> unsubscribe_request" where
  "sample_unsubscribe r = \<lparr>unsub_email = ''ann@example.com'', unsub_reason = r\<rparr>"

definition sample_contact :: "nat \<Rightarrow> contact" where
  "sample_contact i =
     \<lparr>contact_oid = i, name = ''abc'', contact_email = ''x@y.com'', phone = ''1234567890'',
      description = ''a parking request'', contact_status = New, contact_source = ''website'',
      contact_ipAddress = None, contact_userAgent = None,
      contact_notes = [\<lparr>note_text = ''Contact form submitted from website'',
                         addedBy = ''system'', addedAt = int i\<rparr>],
      assignedTo = None, priority = (if even i then Medium else High), followUpDate = None,
      contact_createdAt = int i, contact_updatedAt = int i\<rparr>"

definition sample_contact_request :: contact_request where
  "sample_contact_request =
     \<lparr>validationErrors = [], client_ip = Some ''10.0.0.2'', header_userAgent = Some ''curl'',
      header_referer = None, body_name = ''Ann Lee'', body_contact_email = ''ann@example.com'',
      body_phone = ''+923001234567'', body_description = ''Please call me back.''\<rparr>"

definition sample_query :: "string option \<Rightarrow> string option \<Rightarrow> string option \<Rightarrow> list_query" where
  "sample_query p l s =
     \<lparr>query_page = p, query_limit = l, query_status = None, query_priority = None,
      query_source = None, query_search = s\<rparr>"

definition sample_clock :: clock where
  "sample_clock = \<lparr>clock_now = 900000000, startOfToday = 890000000, startOfMonth = 100000000\<rparr>"

section \<open>Properties of subscribe and unsubscribe\<close>

lemma find_after_update:
  "find (\<lambda>x. email x = k) db = Some d \<Longrightarrow> email d' = k \<Longrightarrow>
   find (\<lambda>x. email x = k) (map (\<lambda>x. if oid x = oid d then d' else x) db) = Some d'"
  by (induction db) (auto split: if_splits)

lemma find_Some_email: "find (\<lambda>x. email x = k) db = Some d \<Longrightarrow> email d = k"
  by (induction db) (auto split: if_splits)

lemma update_twice:
  "oid d1 = i \<Longrightarrow>
   map (\<lambda>x. if oid x = i then d2 else x) (map (\<lambda>x. if oid x = i then d1 else x) db) =
   map (\<lambda>x. if oid x = i then d2 else x) db"
  by (induction db) auto

lemma spread_no_keys: "\<not> has_keys patch \<Longrightarrow> spread base patch = base"
  by (simp add: has_keys_def spread_def)

text \<open>The hook changes nothing in the two saves of a loaded document: the status saved
  is active, or the date of the unsubscription is already set.\<close>

lemma stored_form_reactivate: "stored_form now d (reactivate now req d) = reactivated now req d"
  by (simp add: stored_form_def reactivate_def reactivated_def pre_save_subscription_def
      isModified_def spread_no_keys Let_def)

lemma stored_form_unsubscribe:
  "stored_form now d (d\<lparr>status := Unsubscribed, unsubscriptionDate := Some now,
                         unsubscriptionReason := Some r\<rparr>) =
     d\<lparr>status := Unsubscribed, unsubscriptionDate := Some now, unsubscriptionReason := Some r,
       updatedAt := now\<rparr>"
  by (simp add: stored_form_def pre_save_subscription_def isModified_def Let_def)

lemma subscribe_unsubscribed:
  assumes "validationErrors req = []"
    and "findOne_email db (body_email req) = Some d"
    and "status d = Unsubscribed"
  shows "subscribeEmail now req db =
     (\<lparr>code = 200, success = True,
       message = ''Welcome back! Your email subscription has been reactivated.'',
       errors = [], payload = Some (summary (reactivated now req d))\<rparr>,
      map (\<lambda>x. if oid x = oid d then reactivated now req d else x) db)"
proof -
  have "oid (reactivate now req d) = oid d"
    by (simp add: reactivate_def)
  with assms show ?thesis
    by (simp add: subscribeEmail_def save_subscription_def stored_form_reactivate Let_def)
qed

lemma unsubscribe_found:
  assumes "findOne_email db (unsub_email req) = Some d" and "status d \<noteq> Unsubscribed"
  shows "unsubscribeEmail now req db =
     (\<lparr>code = 200, success = True,
       message = ''You have been successfully unsubscribed from our mailing list'',
       errors = [], payload = None\<rparr>,
      map (\<lambda>x. if oid x = oid d then unsubscribed now (unsub_reason req) d else x) db)"
  using assms
  by (simp add: unsubscribeEmail_def save_subscription_def stored_form_unsubscribe
      unsubscribed_def reason_or_default_def Let_def)

lemma findOne_after_update:
  assumes "findOne_email db e = Some d" and "email d' = email d"
  shows "findOne_email (map (\<lambda>x. if oid x = oid d then d' else x) db) e = Some d'"
  using assms find_after_update [of "email_setter e" db d d'] find_Some_email [of "email_setter e" db d]
  by (simp add: findOne_email_def)

lemma create_rejected:
  "save_new_subscription now (new_subscription now req db) db = Inl e \<Longrightarrow>
   create_subscription now req db =
     (failure 500 ''Failed to subscribe. Please try again later.'', db)"
  by (simp add: create_subscription_def)

lemma reactivated_after_unsubscribed:
  "reactivated now req (unsubscribed t r d) = reactivated now req d"
  by (simp add: reactivated_def unsubscribed_def)

text \<open>
  C5. For a record with status active, a subscribe call for the same email performs no
  mutation: the collection after the call is the collection before it, so the stored
  record is identical in every field. The call fails, with the conflict status 409 when
  the request passed validation (with 400 when it did not).
\<close>

theorem subscribe_active_conflict_no_mutation:
  assumes "findOne_email db (body_email req) = Some d" and "status d = Active"
  shows "snd (subscribeEmail now req db) = db \<and>
         \<not> success (fst (subscribeEmail now req db)) \<and>
         code (fst (subscribeEmail now req db)) = (if validationErrors req = [] then 409 else 400)"
  using assms by (simp add: subscribeEmail_def failure_def)

theorem subscribe_active_conflict_no_mutation_witness:
  "findOne_email [sample_subscription Active] (body_email sample_subscribe) =
     Some (sample_subscription Active) \<and>
   status (sample_subscription Active) = Active \<and>
   snd (subscribeEmail 5000 sample_subscribe [sample_subscription Active]) =
     [sample_subscription Active] \<and>
   code (fst (subscribeEmail 5000 sample_subscribe [sample_subscription Active])) = 409"
proof -
  have f: "findOne_email [sample_subscription Active] (body_email sample_subscribe) =
           Some (sample_subscription Active)"
    by code_simp
  have s: "status (sample_subscription Active) = Active"
    by (simp add: sample_subscription_def)
  have v: "validationErrors sample_subscribe = []"
    by (simp add: sample_subscribe_def)
  show ?thesis
    using subscribe_active_conflict_no_mutation [OF f s, of 5000] f s v by simp
qed

text \<open>
  C9, as stated, at an empty reason: the claim has the given reason stored, and the
  handler stores the default, since the empty string is falsy.
\<close>

theorem unsubscribe_empty_reason_counterexample:
  "map unsubscriptionReason
     (snd (unsubscribeEmail 5000 (sample_unsubscribe (Some [])) [sample_subscription Active])) =
   [Some ''User requested'']"
  by code_simp

text \<open>
  C9, amended. No record for the email: 404, nothing changes. A record that is already
  unsubscribed: 400, nothing changes. Any other record: the call succeeds, the record,
  and no other, becomes \<open>unsubscribed now reason\<close> of itself, that is status
  unsubscribed, the date stamped to now, and as reason the given one, or
  \<^verbatim>\<open>User requested\<close> when the reason is absent or empty; a later lookup of the email
  finds that record.
\<close>

theorem unsubscribe_outcomes:
  "(findOne_email db (unsub_email req) = None \<longrightarrow>
      unsubscribeEmail now req db =
        (failure 404 ''Email not found in our subscription list'', db)) \<and>
   (\<forall>d. findOne_email db (unsub_email req) = Some d \<longrightarrow>
      (status d = Unsubscribed \<longrightarrow>
         unsubscribeEmail now req db = (failure 400 ''This email is already unsubscribed'', db)) \<and>
      (status d \<noteq> Unsubscribed \<longrightarrow>
         code (fst (unsubscribeEmail now req db)) = 200 \<and>
         success (fst (unsubscribeEmail now req db)) \<and>
         snd (unsubscribeEmail now req db) =
           map (\<lambda>x. if oid x = oid d then unsubscribed now (unsub_reason req) d else x) db \<and>
         findOne_email (snd (unsubscribeEmail now req db)) (unsub_email req) =
           Some (unsubscribed now (unsub_reason req) d) \<and>
         status (unsubscribed now (unsub_reason req) d) = Unsubscribed \<and>
         unsubscriptionDate (unsubscribed now (unsub_reason req) d) = Some now \<and>
         (unsub_reason req = None \<or> unsub_reason req = Some [] \<longrightarrow>
            unsubscriptionReason (unsubscribed now (unsub_reason req) d) =
              Some ''User requested'') \<and>
         (\<forall>r. unsub_reason req = Some r \<and> r \<noteq> [] \<longrightarrow>
            unsubscriptionReason (unsubscribed now (unsub_reason req) d) = Some r)))"
proof (intro conjI allI impI)
  assume "findOne_email db (unsub_email req) = None"
  then show "unsubscribeEmail now req db =
      (failure 404 ''Email not found in our subscription list'', db)"
    by (simp add: unsubscribeEmail_def)
next
  fix d
  assume "findOne_email db (unsub_email req) = Some d" and "status d = Unsubscribed"
  then show "unsubscribeEmail now req db =
      (failure 400 ''This email is already unsubscribed'', db)"
    by (simp add: unsubscribeEmail_def)
next
  fix d
  assume f: "findOne_email db (unsub_email req) = Some d" and s: "status d \<noteq> Unsubscribed"
  note u = unsubscribe_found [OF f s, of now]
  show "code (fst (unsubscribeEmail now req db)) = 200"
    by (simp add: u)
  show "success (fst (unsubscribeEmail now req db))"
    by (simp add: u)
  show "snd (unsubscribeEmail now req db) =
      map (\<lambda>x. if oid x = oid d then unsubscribed now (unsub_reason req) d else x) db"
    by (simp add: u)
  have "email (unsubscribed now (unsub_reason req) d) = email d"
    by (simp add: unsubscribed_def)
  from findOne_after_update [OF f this]
  show "findOne_email (snd (unsubscribeEmail now req db)) (unsub_email req) =
      Some (unsubscribed now (unsub_reason req) d)"
    by (simp add: u)
  show "status (unsubscribed now (unsub_reason req) d) = Unsubscribed"
    by (simp add: unsubscribed_def)
  show "unsubscriptionDate (unsubscribed now (unsub_reason req) d) = Some now"
    by (simp add: unsubscribed_def)
next
  fix d
  assume "unsub_reason req = None \<or> unsub_reason req = Some []"
  then show "unsubscriptionReason (unsubscribed now (unsub_reason req) d) =
      Some ''User requested''"
    by (auto simp: unsubscribed_def)
next
  fix d r
  assume "unsub_reason req = Some r \<and> r \<noteq> []"
  then show "unsubscriptionReason (unsubscribed now (unsub_reason req) d) = Some r"
    by (simp add: unsubscribed_def)
qed

theorem unsubscribe_outcomes_witness:
  "findOne_email [] (unsub_email (sample_unsubscribe None)) = None \<and>
   code (fst (unsubscribeEmail 5000 (sample_unsubscribe None) [])) = 404 \<and>
   findOne_email [sample_subscription Unsubscribed] (unsub_email (sample_unsubscribe None)) =
     Some (sample_subscription Unsubscribed) \<and>
   unsubscribeEmail 5000 (sample_unsubscribe None) [sample_subscription Unsubscribed] =
     (failure 400 ''This email is already unsubscribed'', [sample_subscription Unsubscribed]) \<and>
   findOne_email [sample_subscription Active] (unsub_email (sample_unsubscribe (Some ''spam''))) =
     Some (sample_subscription Active) \<and>
   snd (unsubscribeEmail 5000 (sample_unsubscribe (Some ''spam'')) [sample_subscription Active]) =
     [(sample_subscription Active)\<lparr>status := Unsubscribed, unsubscriptionDate := Some 5000,
        unsubscriptionReason := Some ''spam'', updatedAt := 5000\<rparr>] \<and>
   snd (unsubscribeEmail 5000 (sample_unsubscribe None) [sample_subscription Active]) =
     [(sample_subscription Active)\<lparr>status := Unsubscribed, unsubscriptionDate := Some 5000,
        unsubscriptionReason := Some ''User requested'', updatedAt := 5000\<rparr>]"
proof -
  have n: "findOne_email [] (unsub_email (sample_unsubscribe None)) = None"
    by (simp add: findOne_email_def)
  have u: "findOne_email [sample_subscription Unsubscribed] (unsub_email (sample_unsubscribe None)) =
      Some (sample_subscription Unsubscribed)"
    by code_simp
  have su: "status (sample_subscription Unsubscribed) = Unsubscribed"
    by (simp add: sample_subscription_def)
  have a: "findOne_email [sample_subscription Active] (unsub_email (sample_unsubscribe (Some ''spam''))) =
      Some (sample_subscription Active)"
    by code_simp
  have a': "findOne_email [sample_subscription Active] (unsub_email (sample_unsubscribe None)) =
      Some (sample_subscription Active)"
    by code_simp
  have sa: "status (sample_subscription Active) \<noteq> Unsubscribed"
    by (simp add: sample_subscription_def)
  have r: "unsub_reason (sample_unsubscribe (Some ''spam'')) = Some ''spam''"
      "unsub_reason (sample_unsubscribe None) = None"
    by (simp_all add: sample_unsubscribe_def)
  show ?thesis
    using unsubscribe_outcomes [of "[]" "sample_unsubscribe None" 5000]
      unsubscribe_outcomes [of "[sample_subscription Unsubscribed]" "sample_unsubscribe None" 5000]
      unsubscribe_outcomes [of "[sample_subscription Active]" "sample_unsubscribe (Some ''spam'')" 5000]
      unsubscribe_outcomes [of "[sample_subscription Active]" "sample_unsubscribe None" 5000]
      n u su a a' sa r
    by (simp add: failure_def unsubscribed_def)
qed

text \<open>
  C1, as stated, at a record with status bounced: the handler reactivates nothing. The
  record is neither active nor unsubscribed, the call goes on to insert a new document
  for an email the collection holds, and ends in the 500 response with the record as it
  was.
\<close>

theorem subscribe_bounced_counterexample:
  "subscribeEmail 5000 sample_subscribe [sample_subscription Bounced] =
     (failure 500 ''Failed to subscribe. Please try again later.'',
      [sample_subscription Bounced])"
  by code_simp

text \<open>
  C1, amended to the records with status unsubscribed. A subscribe call that passed
  validation and finds such a record answers 200 with the message of a reactivation (a
  creation answers 201), and the record, and no other, becomes \<open>reactivated now req\<close> of
  itself: status active, subscription date now, unsubscription date and reason cleared,
  source and request metadata overwritten, the supplied preferences merged over the
  stored ones, everything else kept. In particular an unsubscribe followed by a
  subscribe for the same email leaves the record the first call found reactivated, with
  each preference the second call does not name as it was before both.
\<close>

theorem resubscribe_reactivates:
  assumes "validationErrors req = []"
    and "findOne_email db (body_email req) = Some d"
  shows "(status d = Unsubscribed \<longrightarrow>
            subscribeEmail now req db =
              (\<lparr>code = 200, success = True,
                message = ''Welcome back! Your email subscription has been reactivated.'',
                errors = [], payload = Some (summary (reactivated now req d))\<rparr>,
               map (\<lambda>x. if oid x = oid d then reactivated now req d else x) db) \<and>
            findOne_email (snd (subscribeEmail now req db)) (body_email req) =
              Some (reactivated now req d)) \<and>
         (status d \<noteq> Unsubscribed \<longrightarrow> unsub_email ureq = body_email req \<longrightarrow>
            code (fst (subscribeEmail now req (snd (unsubscribeEmail t ureq db)))) = 200 \<and>
            snd (subscribeEmail now req (snd (unsubscribeEmail t ureq db))) =
              map (\<lambda>x. if oid x = oid d then reactivated now req d else x) db \<and>
            findOne_email (snd (subscribeEmail now req (snd (unsubscribeEmail t ureq db))))
              (body_email req) = Some (reactivated now req d)) \<and>
         status (reactivated now req d) = Active \<and>
         subscriptionDate (reactivated now req d) = now \<and>
         unsubscriptionDate (reactivated now req d) = None \<and>
         unsubscriptionReason (reactivated now req d) = None \<and>
         preferences (reactivated now req d) = spread (preferences d) (preferences_of req)"
proof (intro conjI impI)
  have e: "email (reactivated now req d) = email d"
    by (simp add: reactivated_def)
  {
    assume s: "status d = Unsubscribed"
    show r: "subscribeEmail now req db =
        (\<lparr>code = 200, success = True,
          message = ''Welcome back! Your email subscription has been reactivated.'',
          errors = [], payload = Some (summary (reactivated now req d))\<rparr>,
         map (\<lambda>x. if oid x = oid d then reactivated now req d else x) db)"
      by (rule subscribe_unsubscribed [OF assms s])
    show "findOne_email (snd (subscribeEmail now req db)) (body_email req) =
        Some (reactivated now req d)"
      using findOne_after_update [OF assms(2) e] by (simp add: r)
  }
  {
    assume s: "status d \<noteq> Unsubscribed" and u: "unsub_email ureq = body_email req"
    let ?d1 = "unsubscribed t (unsub_reason ureq) d"
    let ?db1 = "map (\<lambda>x. if oid x = oid d then ?d1 else x) db"
    have f: "findOne_email db (unsub_email ureq) = Some d"
      using assms(2) u by simp
    have db1: "snd (unsubscribeEmail t ureq db) = ?db1"
      by (simp add: unsubscribe_found [OF f s])
    have e1: "email ?d1 = email d"
      by (simp add: unsubscribed_def)
    have f1: "findOne_email ?db1 (body_email req) = Some ?d1"
      by (rule findOne_after_update [OF assms(2) e1])
    have s1: "status ?d1 = Unsubscribed"
      by (simp add: unsubscribed_def)
    have o1: "oid ?d1 = oid d"
      by (simp add: unsubscribed_def)
    have r: "subscribeEmail now req ?db1 =
        (\<lparr>code = 200, success = True,
          message = ''Welcome back! Your email subscription has been reactivated.'',
          errors = [], payload = Some (summary (reactivated now req d))\<rparr>,
         map (\<lambda>x. if oid x = oid d then reactivated now req d else x) db)"
      using subscribe_unsubscribed [OF assms(1) f1 s1, of now]
      by (simp add: reactivated_after_unsubscribed o1 update_twice)
    show "code (fst (subscribeEmail now req (snd (unsubscribeEmail t ureq db)))) = 200"
      by (simp add: db1 r)
    show "snd (subscribeEmail now req (snd (unsubscribeEmail t ureq db))) =
        map (\<lambda>x. if oid x = oid d then reactivated now req d else x) db"
      by (simp add: db1 r)
    show "findOne_email (snd (subscribeEmail now req (snd (unsubscribeEmail t ureq db))))
        (body_email req) = Some (reactivated now req d)"
      using findOne_after_update [OF assms(2) e] by (simp add: db1 r)
  }
qed (simp_all add: reactivated_def)

theorem resubscribe_reactivates_witness:
  "validationErrors sample_subscribe = [] \<and>
   findOne_email [sample_subscription Unsubscribed] (body_email sample_subscribe) =
     Some (sample_subscription Unsubscribed) \<and>
   snd (subscribeEmail 5000 sample_subscribe [sample_subscription Unsubscribed]) =
     [reactivated 5000 sample_subscribe (sample_subscription Unsubscribed)] \<and>
   findOne_email [sample_subscription Active] (body_email sample_subscribe) =
     Some (sample_subscription Active) \<and>
   unsub_email (sample_unsubscribe None) = body_email sample_subscribe \<and>
   snd (subscribeEmail 5000 sample_subscribe
          (snd (unsubscribeEmail 4000 (sample_unsubscribe None) [sample_subscription Active]))) =
     [reactivated 5000 sample_subscribe (sample_subscription Active)] \<and>
   preferences (reactivated 5000 sample_subscribe (sample_subscription Active)) =
     \<lparr>newsletters = True, promotions = True, updates = True, events = False\<rparr>"
proof -
  have v: "validationErrors sample_subscribe = []"
    by (simp add: sample_subscribe_def)
  have u: "findOne_email [sample_subscription Unsubscribed] (body_email sample_subscribe) =
      Some (sample_subscription Unsubscribed)"
    by code_simp
  have a: "findOne_email [sample_subscription Active] (body_email sample_subscribe) =
      Some (sample_subscription Active)"
    by code_simp
  have s: "status (sample_subscription Unsubscribed) = Unsubscribed"
      "status (sample_subscription Active) \<noteq> Unsubscribed"
    by (simp_all add: sample_subscription_def)
  have m: "unsub_email (sample_unsubscribe None) = body_email sample_subscribe"
    by (simp add: sample_unsubscribe_def sample_subscribe_def)
  have p: "spread (preferences (sample_subscription Active)) (preferences_of sample_subscribe) =
      \<lparr>newsletters = True, promotions = True, updates = True, events = False\<rparr>"
    by (simp add: spread_def preferences_of_def sample_subscribe_def sample_subscription_def)
  show ?thesis
    using resubscribe_reactivates [OF v u, where now = 5000]
      resubscribe_reactivates [OF v a, where now = 5000 and t = 4000
        and ureq = "sample_unsubscribe None"]
      v u a s m p
    by simp
qed

text \<open>
  C2, as stated, at a record with status complained: the insert of the new document is
  rejected by the unique index, and the response is the generic 500, not the 409.
\<close>

theorem duplicate_key_counterexample:
  "save_new_subscription 5000
     (new_subscription 5000 sample_subscribe [sample_subscription Complained])
     [sample_subscription Complained] = Inl DuplicateKey \<and>
   code (fst (subscribeEmail 5000 sample_subscribe [sample_subscription Complained])) = 500"
  by code_simp

text \<open>
  C2, amended. When the unique index rejects the insert of the new subscription, the
  block that creates it answers the generic failure, status 500, and the collection is
  as the insert found it. This holds for whatever collection the store holds when the
  insert arrives, so also for one that gained the email after the handler's lookup; and
  it is the answer of the whole call when the lookup found a record that is neither
  active nor unsubscribed.
\<close>

theorem duplicate_key_is_generic_failure:
  assumes "save_new_subscription now (new_subscription now req db) db = Inl DuplicateKey"
  shows "create_subscription now req db =
           (failure 500 ''Failed to subscribe. Please try again later.'', db) \<and>
         (validationErrors req = [] \<longrightarrow>
          (\<forall>d. findOne_email db (body_email req) = Some d \<longrightarrow>
                 status d \<noteq> Active \<and> status d \<noteq> Unsubscribed) \<longrightarrow>
          subscribeEmail now req db =
            (failure 500 ''Failed to subscribe. Please try again later.'', db))"
proof (intro conjI impI)
  show c: "create_subscription now req db =
      (failure 500 ''Failed to subscribe. Please try again later.'', db)"
    by (rule create_rejected [OF assms])
  assume "validationErrors req = []"
    and "\<forall>d. findOne_email db (body_email req) = Some d \<longrightarrow>
           status d \<noteq> Active \<and> status d \<noteq> Unsubscribed"
  then show "subscribeEmail now req db =
      (failure 500 ''Failed to subscribe. Please try again later.'', db)"
    by (simp add: subscribeEmail_def c split: option.splits)
qed

theorem duplicate_key_is_generic_failure_witness:
  "save_new_subscription 5000
     (new_subscription 5000 sample_subscribe [sample_subscription Active])
     [sample_subscription Active] = Inl DuplicateKey \<and>
   create_subscription 5000 sample_subscribe [sample_subscription Active] =
     (failure 500 ''Failed to subscribe. Please try again later.'', [sample_subscription Active]) \<and>
   save_new_subscription 5000
     (new_subscription 5000 sample_subscribe [(sample_subscription Active)\<lparr>status := Complained\<rparr>])
     [(sample_subscription Active)\<lparr>status := Complained\<rparr>] = Inl DuplicateKey \<and>
   subscribeEmail 5000 sample_subscribe [(sample_subscription Active)\<lparr>status := Complained\<rparr>] =
     (failure 500 ''Failed to subscribe. Please try again later.'',
      [(sample_subscription Active)\<lparr>status := Complained\<rparr>])"
proof -
  let ?c = "(sample_subscription Active)\<lparr>status := Complained\<rparr>"
  have a: "save_new_subscription 5000
      (new_subscription 5000 sample_subscribe [sample_subscription Active])
      [sample_subscription Active] = Inl DuplicateKey"
    by code_simp
  have c: "save_new_subscription 5000 (new_subscription 5000 sample_subscribe [?c]) [?c] =
      Inl DuplicateKey"
    by code_simp
  have v: "validationErrors sample_subscribe = []"
    by (simp add: sample_subscribe_def)
  have f: "findOne_email [?c] (body_email sample_subscribe) = Some ?c"
    by code_simp
  show ?thesis
    using duplicate_key_is_generic_failure [OF a] duplicate_key_is_generic_failure [OF c]
      a c v f
    by simp
qed

section \<open>Properties of the statistics\<close>

lemma bump_keys: "fst ` set (bump k gs) = insert k (fst ` set gs)"
proof (induction gs)
  case Nil
  then show ?case by simp
next
  case (Cons g gs)
  then show ?case by (cases g) (simp add: insert_commute)
qed

lemma bump_distinct: "distinct (map fst gs) \<Longrightarrow> distinct (map fst (bump k gs))"
proof (induction gs)
  case Nil
  then show ?case by simp
next
  case (Cons g gs)
  obtain k' n where g: "g = (k', n)" by (cases g)
  have "k' \<notin> fst ` set (bump k gs)" if "k \<noteq> k'"
    using that Cons.prems by (simp add: bump_keys g)
  with Cons show ?case by (auto simp: g)
qed

lemma bump_map_of:
  "map_of (bump k gs) j =
     (if j = k then Some (case map_of gs k of None \<Rightarrow> 1 | Some n \<Rightarrow> Suc n) else map_of gs j)"
  by (induction gs) auto

lemma bump_sum: "sum_list (map snd (bump k gs)) = Suc (sum_list (map snd gs))"
  by (induction gs) auto

lemma fold_bump_distinct:
  "distinct (map fst gs) \<Longrightarrow> distinct (map fst (fold (\<lambda>d. bump (f d)) docs gs))"
  by (induction docs arbitrary: gs) (simp_all add: bump_distinct)

lemma fold_bump_keys:
  "fst ` set (fold (\<lambda>d. bump (f d)) docs gs) = f ` set docs \<union> fst ` set gs"
  by (induction docs arbitrary: gs) (auto simp: bump_keys)

lemma fold_bump_sum:
  "sum_list (map snd (fold (\<lambda>d. bump (f d)) docs gs)) = length docs + sum_list (map snd gs)"
  by (induction docs arbitrary: gs) (simp_all add: bump_sum)

lemma fold_bump_map_of:
  "map_of (fold (\<lambda>d. bump (f d)) docs gs) k =
     (case map_of gs k of
        None \<Rightarrow> if k \<in> f ` set docs then Some (length (filter (\<lambda>d. f d = k) docs)) else None
      | Some n \<Rightarrow> Some (n + length (filter (\<lambda>d. f d = k) docs)))"
proof (induction docs arbitrary: gs)
  case Nil
  then show ?case by (simp split: option.splits)
next
  case (Cons d docs)
  show ?case
    by (auto simp: Cons.IH bump_map_of split: option.splits)
qed

lemma group_count_map_of:
  "map_of (group_count f docs) k =
     (if k \<in> f ` set docs then Some (countDocuments (\<lambda>d. f d = k) docs) else None)"
  by (simp add: group_count_def fold_bump_map_of countDocuments_def)

lemma group_count_sum: "sum_list (map snd (group_count f docs)) = length docs"
  by (simp add: group_count_def fold_bump_sum)

lemma group_count_grouped: "grouped f docs (group_count f docs)"
proof -
  have d: "distinct (map fst (group_count f docs))"
    by (simp add: group_count_def fold_bump_distinct)
  have k: "fst ` set (group_count f docs) = f ` set docs"
    by (simp add: group_count_def fold_bump_keys)
  have "0 < n \<and> n = countDocuments (\<lambda>d. f d = k) docs"
    if "(k, n) \<in> set (group_count f docs)" for k n
  proof -
    from that d have m: "map_of (group_count f docs) k = Some n"
      by simp
    from that have "k \<in> fst ` set (group_count f docs)"
      by force
    then have i: "k \<in> f ` set docs"
      by (simp add: k)
    with m have n: "n = countDocuments (\<lambda>d. f d = k) docs"
      by (simp add: group_count_map_of)
    from i obtain x where "x \<in> set docs" and "f x = k"
      by auto
    then have "0 < countDocuments (\<lambda>d. f d = k) docs"
      by (auto simp: countDocuments_def filter_empty_conv)
    with n show ?thesis by simp
  qed
  with d k show ?thesis
    by (auto simp: grouped_def)
qed

text \<open>
  C7. In the statistics of both collections, each grouped count (by status and by
  priority for contacts, by status and by source for subscriptions) is \<open>grouped\<close>: one
  group per category that some document has, with its count, and no group for a category
  without a document; and the counts by status add up to the total that the same response
  reports, the unfiltered count of the collection.
\<close>

theorem grouped_counts:
  assumes "payload (getContactStats clk cdb) = Some cs"
    and "payload (getEmailStats clk sdb) = Some es"
  shows "grouped contact_status cdb (cstats_byStatus cs) \<and>
         grouped priority cdb (cstats_byPriority cs) \<and>
         grouped status sdb (byStatus es) \<and>
         grouped source sdb (bySource es) \<and>
         sum_list (map snd (cstats_byStatus cs)) = cstats_total cs \<and>
         cstats_total cs = length cdb \<and>
         sum_list (map snd (byStatus es)) = stats_total es \<and>
         stats_total es = length sdb"
proof -
  from assms(1) have cs: "cstats_byStatus cs = group_count contact_status cdb"
      "cstats_byPriority cs = group_count priority cdb" "cstats_total cs = length cdb"
    by (auto simp: getContactStats_def countDocuments_def)
  from assms(2) have es: "byStatus es = group_count status sdb"
      "bySource es = group_count source sdb" "stats_total es = length sdb"
    by (auto simp: getEmailStats_def getStats_def countDocuments_def)
  show ?thesis
    by (simp add: cs es group_count_grouped group_count_sum)
qed

theorem grouped_counts_witness:
  "map_option cstats_byStatus
     (payload (getContactStats sample_clock [sample_contact 1, sample_contact 2, sample_contact 3])) =
     Some [(New, 3)] \<and>
   map_option cstats_byPriority
     (payload (getContactStats sample_clock [sample_contact 1, sample_contact 2, sample_contact 3])) =
     Some [(High, 2), (Medium, 1)] \<and>
   map_option byStatus
     (payload (getEmailStats sample_clock [sample_subscription Active, sample_subscription Bounced])) =
     Some [(Active, 1), (Bounced, 1)] \<and>
   grouped priority [sample_contact 1, sample_contact 2, sample_contact 3]
     [(High, 2), (Medium, 1)] \<and>
   grouped status [sample_subscription Active, sample_subscription Bounced]
     [(Active, 1), (Bounced, 1)]"
proof -
  let ?cdb = "[sample_contact 1, sample_contact 2, sample_contact 3]"
  let ?sdb = "[sample_subscription Active, sample_subscription Bounced]"
  obtain cs where cs: "payload (getContactStats sample_clock ?cdb) = Some cs"
    by (simp add: getContactStats_def)
  obtain es where es: "payload (getEmailStats sample_clock ?sdb) = Some es"
    by (simp add: getEmailStats_def)
  have c1: "map_option cstats_byStatus (payload (getContactStats sample_clock ?cdb)) =
      Some [(New, 3)]"
    by code_simp
  have c2: "map_option cstats_byPriority (payload (getContactStats sample_clock ?cdb)) =
      Some [(High, 2), (Medium, 1)]"
    by code_simp
  have e1: "map_option byStatus (payload (getEmailStats sample_clock ?sdb)) =
      Some [(Active, 1), (Bounced, 1)]"
    by code_simp
  show ?thesis
    using grouped_counts [OF cs es] cs es c1 c2 e1 by simp
qed

text \<open>The engagement summary: the three totals are the sums over the active rows, and
  with no active row every field is 0.\<close>

lemma numbers_at_counter:
  "numbers_at ''emailsSent'' rows = map emailsSent rows"
  "numbers_at ''emailsOpened'' rows = map emailsOpened rows"
  "numbers_at ''emailsClicked'' rows = map emailsClicked rows"
  by (induction rows) (simp_all add: numbers_at_def stored_number_def)

lemma numbers_at_virtual: "numbers_at ''engagementRate'' rows = []"
  by (induction rows) (simp_all add: numbers_at_def stored_number_def)

lemma engagement_totals:
  assumes "payload (getEmailStats clk db) = Some es"
  shows "totalEmailsSent (engagement_data es) =
           sum_list (map emailsSent (filter (\<lambda>d. status d = Active) db)) \<and>
         totalEmailsOpened (engagement_data es) =
           sum_list (map emailsOpened (filter (\<lambda>d. status d = Active) db)) \<and>
         totalEmailsClicked (engagement_data es) =
           sum_list (map emailsClicked (filter (\<lambda>d. status d = Active) db))"
proof (cases "filter (\<lambda>d. status d = Active) db = []")
  case True
  with assms show ?thesis
    by (auto simp: getEmailStats_def engagementStats_def)
next
  case False
  with assms show ?thesis
    by (auto simp: getEmailStats_def engagementStats_def acc_sum_def numbers_at_counter Let_def)
qed

lemma engagement_without_rows:
  assumes "payload (getEmailStats clk db) = Some es"
    and "filter (\<lambda>d. status d = Active) db = []"
  shows "engagement_data es =
     \<lparr>totalEmailsSent = 0, totalEmailsOpened = 0, totalEmailsClicked = 0,
      avgEngagementRate = Some 0\<rparr>"
  using assms by (auto simp: getEmailStats_def engagementStats_def)

text \<open>With an active row the average is \<^verbatim>\<open>null\<close>, whatever the rates of the rows.\<close>

lemma engagement_average_null:
  assumes "payload (getEmailStats clk db) = Some es"
    and "filter (\<lambda>d. status d = Active) db \<noteq> []"
  shows "avgEngagementRate (engagement_data es) = None"
  using assms
  by (auto simp: getEmailStats_def engagementStats_def acc_avg_def numbers_at_virtual Let_def)

text \<open>
  C3, as stated, at two collections of one active subscription with 50 emails sent, 10
  opened and 2 clicked, whose engagement rate is 20. When the subscription is verified,
  the claim has the mean 20 and never a missing value, and the summary has no average:
  \<^verbatim>\<open>avgEngagementRate\<close> is \<^verbatim>\<open>null\<close>. When it is not verified, no row is active
  and verified, and the summary still counts it: the totals are 50, 10 and 2.
\<close>

theorem engagement_summary_counterexample:
  "engagementRate (sample_subscription Active) = 20 \<and>
   isVerified (sample_subscription Active) \<and>
   map_option engagement_data (payload (getEmailStats sample_clock [sample_subscription Active])) =
     Some \<lparr>totalEmailsSent = 50, totalEmailsOpened = 10, totalEmailsClicked = 2,
           avgEngagementRate = None\<rparr> \<and>
   map_option engagement_data
     (payload (getEmailStats sample_clock [(sample_subscription Active)\<lparr>isVerified := False\<rparr>])) =
     Some \<lparr>totalEmailsSent = 50, totalEmailsOpened = 10, totalEmailsClicked = 2,
           avgEngagementRate = None\<rparr>"
  by code_simp

text \<open>
  C3, amended. The engagement summary of the subscription statistics is computed over
  exactly the rows with status active, verified or not: its three totals are the sums of
  \<^verbatim>\<open>emailsSent\<close>, \<^verbatim>\<open>emailsOpened\<close> and \<^verbatim>\<open>emailsClicked\<close> over those rows, and when
  no row is active every one of the four fields is 0.
\<close>

theorem engagement_summary_over_active_rows:
  assumes "payload (getEmailStats clk db) = Some es"
  shows "totalEmailsSent (engagement_data es) =
           sum_list (map emailsSent (filter (\<lambda>d. status d = Active) db)) \<and>
         totalEmailsOpened (engagement_data es) =
           sum_list (map emailsOpened (filter (\<lambda>d. status d = Active) db)) \<and>
         totalEmailsClicked (engagement_data es) =
           sum_list (map emailsClicked (filter (\<lambda>d. status d = Active) db)) \<and>
         (filter (\<lambda>d. status d = Active) db = [] \<longrightarrow>
            engagement_data es =
              \<lparr>totalEmailsSent = 0, totalEmailsOpened = 0, totalEmailsClicked = 0,
               avgEngagementRate = Some 0\<rparr>)"
  using engagement_totals [OF assms] engagement_without_rows [OF assms] by simp

theorem engagement_summary_over_active_rows_witness:
  "map_option (\<lambda>es. (totalEmailsSent (engagement_data es), totalEmailsOpened (engagement_data es),
                      totalEmailsClicked (engagement_data es)))
     (payload (getEmailStats sample_clock
        [sample_subscription Active, sample_subscription Bounced,
         (sample_subscription Active)\<lparr>isVerified := False, emailsSent := 7\<rparr>])) =
     Some (57, 20, 4) \<and>
   filter (\<lambda>d. status d = Active) [sample_subscription Bounced] = [] \<and>
   map_option engagement_data (payload (getEmailStats sample_clock [sample_subscription Bounced])) =
     Some \<lparr>totalEmailsSent = 0, totalEmailsOpened = 0, totalEmailsClicked = 0,
           avgEngagementRate = Some 0\<rparr>"
proof -
  let ?u = "(sample_subscription Active)\<lparr>isVerified := False, emailsSent := 7\<rparr>"
  let ?db = "[sample_subscription Active, sample_subscription Bounced, ?u]"
  obtain es where es: "payload (getEmailStats sample_clock ?db) = Some es"
    by (simp add: getEmailStats_def)
  obtain es' where es': "payload (getEmailStats sample_clock [sample_subscription Bounced]) = Some es'"
    by (simp add: getEmailStats_def)
  have a: "filter (\<lambda>d. status d = Active) ?db = [sample_subscription Active, ?u]"
    by (simp add: sample_subscription_def)
  have b: "filter (\<lambda>d. status d = Active) [sample_subscription Bounced] = []"
    by (simp add: sample_subscription_def)
  have v: "emailsSent (sample_subscription Active) = 50"
      "emailsOpened (sample_subscription Active) = 10"
      "emailsClicked (sample_subscription Active) = 2"
    by (simp_all add: sample_subscription_def)
  show ?thesis
    using engagement_summary_over_active_rows [OF es] engagement_summary_over_active_rows [OF es']
      es es' a b v
    by simp
qed

section \<open>Properties of the contact creation\<close>

lemma save_new_contact_result:
  assumes "save_new_contact now c db = Inr (c', db')"
  shows "db' = db @ [c'] \<and>
         contact_source c' = contact_source c \<and>
         contact_notes c' = contact_notes c @
           [\<lparr>note_text = ''Contact form submitted from '' @ contact_source c,
             addedBy = ''system'', addedAt = now\<rparr>]"
proof -
  from assms have v: "validate_contact c"
    by (simp add: save_new_contact_def split: if_splits)
  from assms v have c': "c' = (pre_save_contact now True c)\<lparr>contact_createdAt := now,
      contact_updatedAt := now\<rparr>" and db': "db' = db @ [c']"
    by (auto simp: save_new_contact_def Let_def)
  show ?thesis
    by (simp add: db' c' pre_save_contact_def)
qed

lemma createContact_cases:
  "createContact now req db = (r, db') \<Longrightarrow>
     (code r \<noteq> 201 \<and> db' = db) \<or>
     (code r = 201 \<and> (\<exists>c. save_new_contact now (new_contact now req db) db = Inr (c, db')))"
  unfolding createContact_def
  by (simp add: failure_def split: if_splits option.splits sum.splits prod.splits) auto

text \<open>
  C8. A call of \<open>createContact\<close> that answers 201 has added one contact to the
  collection, and that contact carries exactly one note: authored by \<^verbatim>\<open>system\<close>, its
  text the sentence of the hook followed by the contact's source. Every other answer
  leaves the collection as it was, so no call creates a contact with no note or with
  more than one.
\<close>

theorem created_contact_has_one_system_note:
  assumes "createContact now req db = (r, db')"
  shows "(code r = 201 \<longrightarrow>
            db' = db @ [last db'] \<and>
            contact_notes (last db') =
              [\<lparr>note_text = ''Contact form submitted from '' @ contact_source (last db'),
                addedBy = ''system'', addedAt = now\<rparr>]) \<and>
         (code r \<noteq> 201 \<longrightarrow> db' = db)"
proof -
  from createContact_cases [OF assms] show ?thesis
  proof
    assume "code r \<noteq> 201 \<and> db' = db"
    then show ?thesis by simp
  next
    assume "code r = 201 \<and> (\<exists>c. save_new_contact now (new_contact now req db) db = Inr (c, db'))"
    then obtain c where k: "code r = 201"
      and s: "save_new_contact now (new_contact now req db) db = Inr (c, db')"
      by blast
    have n: "contact_notes (new_contact now req db) = []"
      by (simp add: new_contact_def)
    from save_new_contact_result [OF s] n have "db' = db @ [c]"
      and "contact_notes c =
        [\<lparr>note_text = ''Contact form submitted from '' @ contact_source c,
          addedBy = ''system'', addedAt = now\<rparr>]"
      by simp_all
    with k show ?thesis by simp
  qed
qed

theorem created_contact_has_one_system_note_witness:
  "code (fst (createContact 5000 sample_contact_request [])) = 201 \<and>
   map contact_notes (snd (createContact 5000 sample_contact_request [])) =
     [[\<lparr>note_text = ''Contact form submitted from website'', addedBy = ''system'',
        addedAt = 5000\<rparr>]]"
proof -
  obtain r db' where c: "createContact 5000 sample_contact_request [] = (r, db')"
    by (cases "createContact 5000 sample_contact_request []")
  have "code (fst (createContact 5000 sample_contact_request [])) = 201"
    by code_simp
  with c have k: "code r = 201"
    by simp
  have "map contact_source (snd (createContact 5000 sample_contact_request [])) = [''website'']"
    by code_simp
  with c have s: "map contact_source db' = [''website'']"
    by simp
  from created_contact_has_one_system_note [OF c] k
  have d: "db' = [last db']"
    and n: "contact_notes (last db') =
      [\<lparr>note_text = ''Contact form submitted from '' @ contact_source (last db'),
        addedBy = ''system'', addedAt = 5000\<rparr>]"
    by simp_all
  from d s have "[contact_source (last db')] = [''website'']"
    by (metis list.simps(8) list.simps(9))
  then have w: "contact_source (last db') = ''website''"
    by simp
  from d have "map contact_notes db' = [contact_notes (last db')]"
    by (metis list.simps(8) list.simps(9))
  with n w c k show ?thesis
    by simp
qed

section \<open>Properties of the list queries\<close>



lemma limit_param_nonzero: "limit_param q \<noteq> 0"
  by (simp add: limit_param_def or_default_def split: option.splits)

lemma ceil_div_ceiling: "ceil_div a b = \<lceil>(of_int a / of_int b :: rat)\<rceil>"
proof -
  have "\<lfloor>(of_int (- a) / of_int b :: rat)\<rfloor> = (- a) div b"
    by (rule floor_divide_of_int_eq)
  then show ?thesis
    by (simp add: ceil_div_def ceiling_def)
qed

lemma ceil_div_covers: "0 < b \<Longrightarrow> a \<le> ceil_div a b * b"
proof -
  assume "0 < b"
  then have "0 \<le> (- a) mod b"
    by simp
  moreover have "(- a) div b * b + (- a) mod b = - a"
    by (rule div_mult_mod_eq)
  ultimately have "(- a) div b * b \<le> - a"
    by linarith
  then show ?thesis
    by (simp add: ceil_div_def)
qed

text \<open>The response of a list handler whose query is well formed and whose skip is not
  negative, and the only way to a payload.\<close>

lemma list_response_ok:
  assumes "0 \<le> (page_param q - 1) * limit_param q"
  shows "list_response failed key q (Inr f) db =
     \<lparr>code = 200, success = True, message = [], errors = [],
      payload = Some
        \<lparr>items = take (nat \<bar>limit_param q\<bar>)
                   (drop (nat ((page_param q - 1) * limit_param q))
                      (sort_key (\<lambda>d. - key d) (filter f db))),
         pagination_current = page_param q,
         pagination_pages = ceil_div (int (length (filter f db))) (limit_param q),
         pagination_total = int (length (filter f db)),
         pagination_limit = limit_param q\<rparr>\<rparr>"
  using assms limit_param_nonzero [of q]
  by (simp add: list_response_def find_page_def countDocuments_def Let_def)


lemma ceil_div_nonneg: "0 \<le> a \<Longrightarrow> 0 < b \<Longrightarrow> 0 \<le> ceil_div a b"
proof -
  assume "0 \<le> a" and "0 < b"
  then have "(- a) div b \<le> 0"
    by (simp add: div_nonpos_pos_le0)
  then show ?thesis
    by (simp add: ceil_div_def)
qed

lemma ceil_div_ceiling_nat: "ceil_div (int n) b = \<lceil>(of_nat n / of_int b :: rat)\<rceil>"
  using ceil_div_ceiling [of "int n" b] by simp

lemma ceil_div_zero: "ceil_div 0 b = 0"
  by (simp add: ceil_div_def)

lemma beyond_last_skips_all:
  assumes "1 \<le> l" and "ceil_div (int n) l < p"
  shows "0 \<le> (p - 1) * l" and "n \<le> nat ((p - 1) * l)"
proof -
  from assms have c: "0 \<le> ceil_div (int n) l" "ceil_div (int n) l \<le> p - 1"
    by (simp_all add: ceil_div_nonneg)
  from assms(1) have "int n \<le> ceil_div (int n) l * l"
    by (simp add: ceil_div_covers)
  also from c(2) assms(1) have "\<dots> \<le> (p - 1) * l"
    by (simp add: mult_right_mono)
  finally have "int n \<le> (p - 1) * l" .
  then show "0 \<le> (p - 1) * l" and "n \<le> nat ((p - 1) * l)"
    by simp_all
qed

lemma list_response_paginates:
  "paginates q (sort_key (\<lambda>d. - key d) (filter f db)) (list_response failed key q (Inr f) db)"
proof -
  let ?ms = "sort_key (\<lambda>d. - key d) (filter f db)"
  let ?r = "list_response failed key q (Inr f) db"
  have len: "length ?ms = length (filter f db)"
    by simp
  show ?thesis
  proof (cases "0 \<le> (page_param q - 1) * limit_param q")
    case True
    note r = list_response_ok [OF True, of failed key f db]
    have meta: "case payload ?r of
         None \<Rightarrow> True
       | Some p \<Rightarrow>
           pagination_current p = page_param q \<and>
           pagination_limit p = limit_param q \<and>
           pagination_total p = int (length ?ms) \<and>
           pagination_pages p =
             \<lceil>(of_int (pagination_total p) / of_int (pagination_limit p) :: rat)\<rceil> \<and>
           (pagination_total p = 0 \<longrightarrow> pagination_pages p = 0)"
      by (simp add: r ceil_div_ceiling_nat [symmetric] ceil_div_zero)
    have contents: "code ?r = 200 \<and> success ?r \<and>
         (case payload ?r of
            None \<Rightarrow> False
          | Some p \<Rightarrow> items p = page_of (page_param q) (limit_param q) ?ms)"
      if "1 \<le> page_param q \<and> 1 \<le> limit_param q"
      using that by (simp add: r page_of_def)
    have example: "case payload ?r of
            None \<Rightarrow> False
          | Some p \<Rightarrow> length (items p) = 5 \<and> pagination_pages p = 3"
      if "length ?ms = 25 \<and> limit_param q = 10 \<and> page_param q = 3"
      using that by (simp add: r ceil_div_def)
    have beyond: "code ?r = 200 \<and> success ?r \<and>
         (case payload ?r of None \<Rightarrow> False | Some p \<Rightarrow> items p = [])"
      if "1 \<le> limit_param q \<and>
          \<lceil>(of_int (int (length ?ms)) / of_int (limit_param q) :: rat)\<rceil> < page_param q"
    proof -
      from that have "1 \<le> limit_param q"
        and "ceil_div (int (length ?ms)) (limit_param q) < page_param q"
        by (simp_all add: ceil_div_ceiling_nat)
      from beyond_last_skips_all(2) [OF this] show ?thesis
        by (simp add: r)
    qed
    from meta contents example beyond show ?thesis
      unfolding paginates_def by blast
  next
    case False
    then have r: "?r = failure 500 failed"
      by (simp add: list_response_def find_page_def Let_def)
    have "\<not> (1 \<le> page_param q \<and> 1 \<le> limit_param q)"
      using False by auto
    moreover have "\<not> (limit_param q = 10 \<and> page_param q = 3)"
      using False by auto
    moreover have "\<not> (1 \<le> limit_param q \<and>
        \<lceil>(of_int (int (length ?ms)) / of_int (limit_param q) :: rat)\<rceil> < page_param q)"
    proof
      assume "1 \<le> limit_param q \<and>
        \<lceil>(of_int (int (length ?ms)) / of_int (limit_param q) :: rat)\<rceil> < page_param q"
      then have "1 \<le> limit_param q"
        and "ceil_div (int (length ?ms)) (limit_param q) < page_param q"
        by (simp_all add: ceil_div_ceiling_nat)
      from beyond_last_skips_all(1) [OF this] False show False
        by simp
    qed
    ultimately show ?thesis
      unfolding paginates_def by (simp add: r failure_def)
  qed
qed

lemma getContacts_unfold:
  "contact_query rx q = Inr f \<Longrightarrow>
   getContacts rx q db = list_response ''Failed to fetch contacts'' contact_createdAt q (Inr f) db"
  by (simp add: getContacts_def)

lemma getSubscriptions_unfold:
  "subscription_query rx q = Inr g \<Longrightarrow>
   getSubscriptions rx q db =
     list_response ''Failed to fetch subscriptions'' subscriptionDate q (Inr g) db"
  by (simp add: getSubscriptions_def)

text \<open>
  C6. For a list query whose search term, if any, the store compiles, the response of
  each list handler \<open>paginates\<close> the matching documents, newest first: the metadata is
  the total, \<open>\<lceil>total / pageSize\<rceil>\<close> pages and 0 pages for no document; the 1-based
  page of a page size of at least 1 is returned; 25 documents in pages of 10 give 5
  documents on page 3 of 3; a page beyond the last is an empty success.
\<close>

theorem list_pagination:
  assumes "contact_query rx q = Inr f" and "subscription_query rx q = Inr g"
  shows "paginates q (sort_key (\<lambda>c. - contact_createdAt c) (filter f cdb))
           (getContacts rx q cdb) \<and>
         paginates q (sort_key (\<lambda>d. - subscriptionDate d) (filter g sdb))
           (getSubscriptions rx q sdb)"
  by (simp add: getContacts_unfold [OF assms(1)] getSubscriptions_unfold [OF assms(2)]
      list_response_paginates)

theorem list_pagination_witness:
  "map_option (\<lambda>p. (map contact_oid (items p), pagination_pages p, pagination_total p))
     (payload (getContacts pattern_engine (sample_query (Some ''2'') (Some ''2'') None)
        [sample_contact 1, sample_contact 2, sample_contact 3])) = Some ([1], 2, 3) \<and>
   map_option (\<lambda>p. (items p, pagination_pages p))
     (payload (getContacts pattern_engine (sample_query (Some ''3'') (Some ''2'') None)
        [sample_contact 1, sample_contact 2, sample_contact 3])) = Some ([], 2) \<and>
   paginates (sample_query (Some ''2'') (Some ''2'') None)
     (sort_key (\<lambda>c. - contact_createdAt c) [sample_contact 1, sample_contact 2, sample_contact 3])
     (getContacts pattern_engine (sample_query (Some ''2'') (Some ''2'') None)
        [sample_contact 1, sample_contact 2, sample_contact 3]) \<and>
   length (map sample_contact [1..<26]) = 25 \<and>
   map_option (\<lambda>p. (length (items p), pagination_pages p))
     (payload (getContacts pattern_engine (sample_query (Some ''3'') None None)
        (map sample_contact [1..<26]))) = Some (5, 3)"
proof -
  let ?q = "sample_query (Some ''2'') (Some ''2'') None"
  let ?db = "[sample_contact 1, sample_contact 2, sample_contact 3]"
  have c: "contact_query pattern_engine ?q = Inr (\<lambda>c. True)"
    by (simp add: contact_query_def sample_query_def given_def field_is_def)
  have s: "subscription_query pattern_engine ?q = Inr (\<lambda>d. True)"
    by (simp add: subscription_query_def sample_query_def given_def field_is_def)
  have e1: "map_option (\<lambda>p. (map contact_oid (items p), pagination_pages p, pagination_total p))
      (payload (getContacts pattern_engine ?q ?db)) = Some ([1], 2, 3)"
    by code_simp
  have e2: "map_option (\<lambda>p. (items p, pagination_pages p))
      (payload (getContacts pattern_engine (sample_query (Some ''3'') (Some ''2'') None) ?db)) =
      Some ([], 2)"
    by code_simp
  have c': "contact_query pattern_engine (sample_query (Some ''3'') None None) = Inr (\<lambda>c. True)"
    by (simp add: contact_query_def sample_query_def given_def field_is_def)
  have s': "subscription_query pattern_engine (sample_query (Some ''3'') None None) =
      Inr (\<lambda>d. True)"
    by (simp add: subscription_query_def sample_query_def given_def field_is_def)
  have pl: "page_param (sample_query (Some ''3'') None None) = 3"
      "limit_param (sample_query (Some ''3'') None None) = 10"
    by code_simp+
  have l: "length (sort_key (\<lambda>c. - contact_createdAt c)
      (filter (\<lambda>c. True) (map sample_contact [1..<26]))) = 25"
    by simp
  from list_pagination [OF c' s', of "map sample_contact [1..<26]" "[]"] pl l
  have e3: "map_option (\<lambda>p. (length (items p), pagination_pages p))
      (payload (getContacts pattern_engine (sample_query (Some ''3'') None None)
         (map sample_contact [1..<26]))) = Some (5, 3)"
    unfolding paginates_def by (auto split: option.splits)
  show ?thesis
    using list_pagination [OF c s, of ?db "[]"] e1 e2 e3 by simp
qed



section \<open>Properties of the search\<close>

lemma rx_prefix_Zero: "rx_prefix ci Zero s = False"
  by (induction s) simp_all













end
